theory Spec2Isabelle
  imports Main "HOL-Library.AList"
begin

section \<open>r2env: release catalog and install/uninstall orchestration\<close>

text \<open>
  A shallow embedding of \<^verbatim>\<open>r2env/package_manager.py\<close> (class \<^verbatim>\<open>PackageManager\<close>).
  Python strings are \<open>string\<close>, Python lists are lists, Python dicts are association
  lists in insertion order (\<open>AList.update\<close> overwrites in place or appends, as a dict
  assignment does), and every exception is a value of the type \<open>error\<close>.
\<close>

subsection \<open>Exceptions\<close>

datatype error =
    PackageManagerException string
  | TypeError
  | ValueError
  | IndexError
  | OSError string
  | URLError string
  | ConnectionResetError string
  | HTTPError string
  | KeyError
  | SystemExit

subsection \<open>String operations of the Python library\<close>

text \<open>\<^verbatim>\<open>s.rfind(c)\<close>: the highest index of \<open>c\<close> in \<open>s\<close>, or \<open>-1\<close>.\<close>

definition rfind :: "char \<Rightarrow> string \<Rightarrow> int" where
  "rfind c s =
     (case filter (\<lambda>i. s ! i = c) (rev [0..<length s]) of
        [] \<Rightarrow> - 1
      | i # _ \<Rightarrow> int i)"

text \<open>
  The loop of \<^verbatim>\<open>genericpath._splitext\<close> that skips leading dots: it answers whether
  some character in \<open>p[filenameIndex:dotIndex]\<close> is not a dot.
\<close>

function skip_dots :: "string \<Rightarrow> nat \<Rightarrow> nat \<Rightarrow> bool" where
  "skip_dots p filenameIndex dotIndex =
     (if filenameIndex < dotIndex
      then (if p ! filenameIndex \<noteq> CHR ''.'' then True
            else skip_dots p (Suc filenameIndex) dotIndex)
      else False)"
  by pat_completeness auto
termination
  by (relation "measure (\<lambda>(p, filenameIndex, dotIndex). dotIndex - filenameIndex)") auto

declare skip_dots.simps [simp del]

text \<open>\<^verbatim>\<open>os.path.splitext\<close> of \<^verbatim>\<open>posixpath\<close> (separator \<open>/\<close>, no alternative separator).\<close>

definition splitext :: "string \<Rightarrow> string \<times> string" where
  "splitext p =
     (let sepIndex = rfind CHR ''/'' p;
          dotIndex = rfind CHR ''.'' p
      in if dotIndex > sepIndex \<and> skip_dots p (nat (sepIndex + 1)) (nat dotIndex)
         then (take (nat dotIndex) p, drop (nat dotIndex) p)
         else (p, []))"

text \<open>\<^verbatim>\<open>s.replace(a, b)\<close> for single characters.\<close>

definition replace :: "char \<Rightarrow> char \<Rightarrow> string \<Rightarrow> string" where
  "replace a b s = map (\<lambda>c. if c = a then b else c) s"

text \<open>\<^verbatim>\<open>s.split(c)\<close> for a single-character separator: never the empty list.\<close>

fun split :: "char \<Rightarrow> string \<Rightarrow> string list" where
  "split c [] = [[]]"
| "split c (x # xs) =
     (if x = c then [] # split c xs
      else (case split c xs of
              [] \<Rightarrow> [[x]]
            | t # ts \<Rightarrow> (x # t) # ts))"

text \<open>\<^verbatim>\<open>xs.remove(x)\<close>: drops the first occurrence, \<^verbatim>\<open>ValueError\<close> when there is none.\<close>

definition list_remove :: "'a \<Rightarrow> 'a list \<Rightarrow> error + 'a list" where
  "list_remove x xs = (if x \<in> set xs then Inr (remove1 x xs) else Inl ValueError)"

text \<open>\<^verbatim>\<open>a in b\<close> for two strings: \<open>a\<close> occurs in \<open>b\<close> as a contiguous substring.\<close>

fun str_in :: "string \<Rightarrow> string \<Rightarrow> bool" where
  "str_in a [] = (a = [])"
| "str_in a (y # ys) = (take (length a) (y # ys) = a \<or> str_in a ys)"

text \<open>\<^verbatim>\<open>sep.join(parts)\<close>.\<close>

fun join :: "string \<Rightarrow> string list \<Rightarrow> string" where
  "join sep [] = []"
| "join sep [x] = x"
| "join sep (x # y # ys) = x @ sep @ join sep (y # ys)"

subsection \<open>The release catalog\<close>

text \<open>
  The value kept in \<^verbatim>\<open>self._packages\<close> and written to \<^verbatim>\<open>profiles.json\<close>: a dict from
  package name to \<^verbatim>\<open>{'source': ..., 'versions': [{'id': ..., 'packages': {...}}, ...]}\<close>.
\<close>

record version =
  version_id :: string
  version_packages :: "(string \<times> string) list"

record package =
  package_source :: string
  package_versions :: "version list"

type_synonym profiles = "(string \<times> package) list"

text \<open>
  One release of the GitHub release list: its \<^verbatim>\<open>tag_name\<close> and the \<^verbatim>\<open>name\<close> of each
  of its \<^verbatim>\<open>assets\<close>, in the order delivered.
\<close>

record release =
  tag_name :: string
  assets :: "string list"

subsection \<open>Asset normalisation (the body of the asset loop)\<close>

definition VERSION_FILTERS :: "(string \<times> (string \<times> string list list) list) list" where
  "VERSION_FILTERS =
     [(''.zip'', [(''w32'', [[''w32'']]),
                  (''w64'', [[''w64'']])]),
      (''.deb'', [(''deb_i386'', [[''i386'']]),
                  (''deb_x64'', [[''amd64'']])]),
      (''.pkg'', [(''mac_arm64'', [[''m1'']]),
                  (''mac_x64'', [[], [''amd64''], [''x64''], [''macos'']])])]"

text \<open>
  \<open>classify tag name\<close> follows one iteration of \<^verbatim>\<open>for asset in release['assets']\<close> in
  \<^verbatim>\<open>update_radare2_profiles\<close>: \<open>Inr None\<close> when the iteration stores nothing
  (a \<^verbatim>\<open>continue\<close>, an unknown extension, or no filter matching), \<open>Inr (Some platform)\<close>
  when it stores \<^verbatim>\<open>version['packages'][platform] = asset['name']\<close>, and \<open>Inl e\<close> when
  it raises.
\<close>

definition classify :: "string \<Rightarrow> string \<Rightarrow> error + string option" where
  "classify tag name =
     (let (asset_name, asset_ext) = splitext name;
          asset_ref = split CHR ''-'' (replace CHR ''_'' CHR ''-'' asset_name)
      in case asset_ref of
           [] \<Rightarrow> Inl IndexError
         | first # _ \<Rightarrow>
             if first \<noteq> ''radare2'' then Inr None
             else if tag \<notin> set asset_ref then Inr None
             else (case list_remove ''radare2'' asset_ref of
                     Inl e \<Rightarrow> Inl e
                   | Inr asset_ref1 \<Rightarrow>
                       (case list_remove tag asset_ref1 of
                          Inl e \<Rightarrow> Inl e
                        | Inr asset_ref2 \<Rightarrow>
                            (case map_of VERSION_FILTERS asset_ext of
                               None \<Rightarrow> Inr None
                             | Some filters \<Rightarrow>
                                 (case find (\<lambda>(platform, refs). asset_ref2 \<in> set refs) filters of
                                    None \<Rightarrow> Inr None
                                  | Some (platform, refs) \<Rightarrow> Inr (Some platform))))))"

text \<open>The asset loop of one release, threading \<^verbatim>\<open>version['packages']\<close>.\<close>

fun scan_assets :: "string \<Rightarrow> string list \<Rightarrow> (string \<times> string) list
    \<Rightarrow> error + (string \<times> string) list" where
  "scan_assets tag [] pkgs = Inr pkgs"
| "scan_assets tag (name # rest) pkgs =
     (case classify tag name of
        Inl e \<Rightarrow> Inl e
      | Inr None \<Rightarrow> scan_assets tag rest pkgs
      | Inr (Some platform) \<Rightarrow> scan_assets tag rest (AList.update platform name pkgs))"

text \<open>The release loop, threading \<^verbatim>\<open>radare2_versions\<close> (appended to at the end).\<close>

fun scan_releases :: "release list \<Rightarrow> version list \<Rightarrow> error + version list" where
  "scan_releases [] radare2_versions = Inr radare2_versions"
| "scan_releases (r # rs) radare2_versions =
     (case scan_assets (tag_name r) (assets r) [] of
        Inl e \<Rightarrow> Inl e
      | Inr pkgs \<Rightarrow>
          scan_releases rs
            (radare2_versions @ [\<lparr>version_id = tag_name r, version_packages = pkgs\<rparr>]))"

definition git_version :: version where
  "git_version = \<lparr>version_id = ''git'', version_packages = []\<rparr>"

text \<open>
  The part of \<^verbatim>\<open>update_radare2_profiles\<close> between the download of the release list and
  the write of the file: the dict \<^verbatim>\<open>profiles\<close>, with \<^verbatim>\<open>radare2_versions[::-1]\<close>.
\<close>

definition build_profiles :: "release list \<Rightarrow> error + profiles" where
  "build_profiles gh_release_info =
     (case scan_releases gh_release_info [git_version] of
        Inl e \<Rightarrow> Inl e
      | Inr radare2_versions \<Rightarrow>
          Inr [(''r2frida'', \<lparr>package_source = ''https://github.com/nowsecure/r2frida'',
                             package_versions = [git_version]\<rparr>),
               (''r2dec'', \<lparr>package_source = ''https://github.com/wargio/r2dec-js'',
                           package_versions = [git_version]\<rparr>),
               (''r2yara'', \<lparr>package_source = ''https://github.com/radareorg/r2yara'',
                            package_versions = [git_version]\<rparr>),
               (''r2ghidra'', \<lparr>package_source = ''https://github.com/radareorg/r2ghidra'',
                              package_versions = [git_version]\<rparr>),
               (''r0'', \<lparr>package_source = ''https://github.com/radareorg/r0'',
                        package_versions = [git_version]\<rparr>),
               (''radare2'', \<lparr>package_source = ''https://github.com/radareorg/radare2'',
                             package_versions = rev radare2_versions\<rparr>)])"

subsection \<open>The filesystem\<close>

text \<open>
  The filesystem is a tree: a file with its content, or a directory with its entries in
  the order \<^verbatim>\<open>os.listdir\<close> reports them. The functions of this section take a path
  as the list of directory entries from the root to the target: the state root, a fixed
  directory name below it, or an entry that \<^verbatim>\<open>os.listdir\<close> returned. Paths that contain
  a string of the caller's are treated in the next section. Permissions, links and
  length limits are not modelled: an operation fails only when an entry is missing or
  of the wrong kind.
\<close>

datatype node = File string | Dir "(string \<times> node) list"

type_synonym path = "string list"

fun lookup :: "node \<Rightarrow> path \<Rightarrow> node option" where
  "lookup fs [] = Some fs"
| "lookup (File c) (n # ns) = None"
| "lookup (Dir es) (n # ns) =
     (case map_of es n of
        None \<Rightarrow> None
      | Some child \<Rightarrow> lookup child ns)"

text \<open>\<^verbatim>\<open>os.path.isdir\<close>, \<^verbatim>\<open>os.path.isfile\<close>, \<^verbatim>\<open>os.path.exists\<close>: they never raise.\<close>

definition isdir :: "node \<Rightarrow> path \<Rightarrow> bool" where
  "isdir fs p = (case lookup fs p of Some (Dir es) \<Rightarrow> True | _ \<Rightarrow> False)"

definition isfile :: "node \<Rightarrow> path \<Rightarrow> bool" where
  "isfile fs p = (case lookup fs p of Some (File c) \<Rightarrow> True | _ \<Rightarrow> False)"

definition exists :: "node \<Rightarrow> path \<Rightarrow> bool" where
  "exists fs p = (case lookup fs p of Some n \<Rightarrow> True | None \<Rightarrow> False)"

text \<open>\<^verbatim>\<open>os.listdir\<close>: the names of the entries, \<^verbatim>\<open>OSError\<close> when not a directory.\<close>

definition listdir :: "node \<Rightarrow> path \<Rightarrow> error + string list" where
  "listdir fs p =
     (case lookup fs p of
        Some (Dir es) \<Rightarrow> Inr (map fst es)
      | Some (File c) \<Rightarrow> Inl (OSError ''NotADirectoryError'')
      | None \<Rightarrow> Inl (OSError ''FileNotFoundError''))"

text \<open>A fresh chain of nested empty directories.\<close>

fun mktree :: "path \<Rightarrow> node" where
  "mktree [] = Dir []"
| "mktree (n # ns) = Dir [(n, mktree ns)]"

text \<open>
  \<^verbatim>\<open>os.makedirs(p)\<close>: creates \<open>p\<close> and every missing ancestor; \<^verbatim>\<open>FileExistsError\<close> when
  \<open>p\<close> exists, \<^verbatim>\<open>NotADirectoryError\<close> when an ancestor is a file.
\<close>

fun makedirs :: "node \<Rightarrow> path \<Rightarrow> error + node" where
  "makedirs fs [] = Inl (OSError ''FileExistsError'')"
| "makedirs (File c) (n # ns) = Inl (OSError ''NotADirectoryError'')"
| "makedirs (Dir es) (n # ns) =
     (case map_of es n of
        None \<Rightarrow> Inr (Dir (AList.update n (mktree ns) es))
      | Some child \<Rightarrow>
          (case makedirs child ns of
             Inl e \<Rightarrow> Inl e
           | Inr child' \<Rightarrow> Inr (Dir (AList.update n child' es))))"

text \<open>
  \<^verbatim>\<open>shutil.rmtree(p)\<close>: removes the directory \<open>p\<close> with everything below it; an
  \<^verbatim>\<open>OSError\<close> when \<open>p\<close> is missing or not a directory.
\<close>

fun rmtree :: "node \<Rightarrow> path \<Rightarrow> error + node" where
  "rmtree fs [] = Inl (OSError ''PermissionError'')"
| "rmtree (File c) (n # ns) = Inl (OSError ''NotADirectoryError'')"
| "rmtree (Dir es) [n] =
     (case map_of es n of
        None \<Rightarrow> Inl (OSError ''FileNotFoundError'')
      | Some (File c) \<Rightarrow> Inl (OSError ''NotADirectoryError'')
      | Some (Dir sub) \<Rightarrow> Inr (Dir (AList.delete n es)))"
| "rmtree (Dir es) (n # m # ns) =
     (case map_of es n of
        None \<Rightarrow> Inl (OSError ''FileNotFoundError'')
      | Some child \<Rightarrow>
          (case rmtree child (m # ns) of
             Inl e \<Rightarrow> Inl e
           | Inr child' \<Rightarrow> Inr (Dir (AList.update n child' es))))"

text \<open>
  \<^verbatim>\<open>open(p, 'w')\<close> followed by writing \<open>c\<close>: creates or truncates the file; an
  \<^verbatim>\<open>OSError\<close> when \<open>p\<close> is a directory or its parent is not one.
\<close>

fun write_file :: "node \<Rightarrow> path \<Rightarrow> string \<Rightarrow> error + node" where
  "write_file fs [] c = Inl (OSError ''IsADirectoryError'')"
| "write_file (File d) (n # ns) c = Inl (OSError ''NotADirectoryError'')"
| "write_file (Dir es) [n] c =
     (case map_of es n of
        Some (Dir sub) \<Rightarrow> Inl (OSError ''IsADirectoryError'')
      | _ \<Rightarrow> Inr (Dir (AList.update n (File c) es)))"
| "write_file (Dir es) (n # m # ns) c =
     (case map_of es n of
        None \<Rightarrow> Inl (OSError ''FileNotFoundError'')
      | Some child \<Rightarrow>
          (case write_file child (m # ns) c of
             Inl e \<Rightarrow> Inl e
           | Inr child' \<Rightarrow> Inr (Dir (AList.update n child' es))))"

subsection \<open>Paths built from the caller's strings\<close>

text \<open>
  A package name or version tag that \<^verbatim>\<open>install_package\<close> puts into a path is a string
  the caller chose: a \<open>/\<close> in it is a separator, and \<open>.\<close> and \<open>..\<close> are components
  that the kernel resolves. \<open>components s\<close> are the pieces of \<open>s\<close> between separators
  (repeated and trailing separators give no piece), and \<open>os_path_join p s\<close> is
  \<^verbatim>\<open>os.path.join(p, s)\<close> as a sequence of components: those of \<open>s\<close> after those of
  \<open>p\<close>, or alone when \<open>s\<close> is absolute.
\<close>

definition components :: "string \<Rightarrow> string list" where
  "components s = filter (\<lambda>c. c \<noteq> []) (split CHR ''/'' s)"

definition os_path_join :: "path \<Rightarrow> string \<Rightarrow> path" where
  "os_path_join p s =
     (case s of
        [] \<Rightarrow> p
      | c # cs \<Rightarrow> if c = CHR ''/'' then components s else p @ components s)"

text \<open>
  Path resolution from the directory \<open>cur\<close>, as the kernel walks a path without
  symbolic links: every component is looked up in a directory that exists, \<open>.\<close> stays,
  \<open>..\<close> goes to the parent (the root is its own parent). The result is the sequence of
  directory entries that leads to the target, which itself need not exist. A path with
  a null character is refused with \<^verbatim>\<open>ValueError\<close> before anything is looked up.
\<close>

fun walk :: "node \<Rightarrow> path \<Rightarrow> path \<Rightarrow> error + path" where
  "walk fs cur [] = Inr cur"
| "walk fs cur (c # cs) =
     (if CHR 0x00 \<in> set (concat (c # cs)) then Inl ValueError
      else (case lookup fs cur of
              None \<Rightarrow> Inl (OSError ''FileNotFoundError'')
            | Some (File d) \<Rightarrow> Inl (OSError ''NotADirectoryError'')
            | Some (Dir es) \<Rightarrow>
                if c = ''.'' then walk fs cur cs
                else if c = ''..'' then walk fs (butlast cur) cs
                else walk fs (cur @ [c]) cs))"

text \<open>\<^verbatim>\<open>os.path.isdir\<close> and \<^verbatim>\<open>os.path.exists\<close> on such a path: false when the walk fails.\<close>

definition os_path_isdir :: "node \<Rightarrow> path \<Rightarrow> bool" where
  "os_path_isdir fs p = (case walk fs [] p of Inl e \<Rightarrow> False | Inr q \<Rightarrow> isdir fs q)"

definition os_path_exists :: "node \<Rightarrow> path \<Rightarrow> bool" where
  "os_path_exists fs p = (case walk fs [] p of Inl e \<Rightarrow> False | Inr q \<Rightarrow> exists fs q)"

text \<open>
  \<^verbatim>\<open>os.mkdir\<close>: creates the last component in its parent, which must exist;
  \<^verbatim>\<open>FileExistsError\<close> when the target exists or the last component is \<open>.\<close> or \<open>..\<close>.
\<close>

definition os_mkdir :: "node \<Rightarrow> path \<Rightarrow> (error + unit) \<times> node" where
  "os_mkdir fs p =
     (case walk fs [] p of
        Inl e \<Rightarrow> (Inl e, fs)
      | Inr q \<Rightarrow>
          if p = [] \<or> last p = ''.'' \<or> last p = ''..''
          then (Inl (OSError ''FileExistsError''), fs)
          else (case lookup fs q of
                  Some n \<Rightarrow> (Inl (OSError ''FileExistsError''), fs)
                | None \<Rightarrow>
                    (case makedirs fs q of
                       Inl e \<Rightarrow> (Inl e, fs)
                     | Inr fs' \<Rightarrow> (Inr (), fs'))))"

text \<open>
  \<^verbatim>\<open>os.makedirs(name)\<close> as the library writes it: when the head does not exist it is
  made first, a \<^verbatim>\<open>FileExistsError\<close> of that recursive call is swallowed, and a tail
  \<open>.\<close> ends the call; then \<^verbatim>\<open>os.mkdir(name)\<close>. Directories made before an error stay.
\<close>

function os_makedirs :: "node \<Rightarrow> path \<Rightarrow> (error + unit) \<times> node" where
  "os_makedirs fs name =
     (if name = [] then os_mkdir fs name
      else if \<not> os_path_exists fs (butlast name)
      then (case os_makedirs fs (butlast name) of
              (Inl e, fs1) \<Rightarrow>
                if e = OSError ''FileExistsError''
                then (if last name = ''.'' then (Inr (), fs1) else os_mkdir fs1 name)
                else (Inl e, fs1)
            | (Inr u, fs1) \<Rightarrow>
                if last name = ''.'' then (Inr (), fs1) else os_mkdir fs1 name)
      else os_mkdir fs name)"
  by pat_completeness auto
termination
  by (relation "measure (\<lambda>(fs, name). length name)") auto

declare os_makedirs.simps [simp del]

text \<open>The directory at \<open>q\<close> with all its entries removed.\<close>

fun clear_dir :: "node \<Rightarrow> path \<Rightarrow> node" where
  "clear_dir (File c) q = File c"
| "clear_dir (Dir es) [] = Dir []"
| "clear_dir (Dir es) (n # ns) =
     (case map_of es n of
        None \<Rightarrow> Dir es
      | Some child \<Rightarrow> Dir (AList.update n (clear_dir child ns) es))"

text \<open>
  \<^verbatim>\<open>shutil.rmtree\<close> on such a path: the entries of the directory are removed, then
  \<^verbatim>\<open>os.rmdir\<close> removes the directory itself, which fails (with the entries gone) for the
  root and for a path that ends in \<open>.\<close> or \<open>..\<close>.
\<close>

definition shutil_rmtree :: "node \<Rightarrow> path \<Rightarrow> (error + unit) \<times> node" where
  "shutil_rmtree fs p =
     (case walk fs [] p of
        Inl e \<Rightarrow> (Inl e, fs)
      | Inr q \<Rightarrow>
          (case lookup fs q of
             None \<Rightarrow> (Inl (OSError ''FileNotFoundError''), fs)
           | Some (File c) \<Rightarrow> (Inl (OSError ''NotADirectoryError''), fs)
           | Some (Dir es) \<Rightarrow>
               if q = [] \<or> p = [] \<or> last p = ''.'' \<or> last p = ''..''
               then (Inl (OSError ''rmdir''), clear_dir fs q)
               else (case rmtree fs q of
                       Inl e \<Rightarrow> (Inl e, fs)
                     | Inr fs' \<Rightarrow> (Inr (), fs'))))"

subsection \<open>Class constants and the installed-package registry\<close>

definition LOG_DIR :: string where "LOG_DIR = ''log''"
definition PACKAGES_DIR :: string where "PACKAGES_DIR = ''versions''"
definition SOURCE_DIR :: string where "SOURCE_DIR = ''src''"
definition DOWNLOAD_URL :: string where
  "DOWNLOAD_URL = ''https://github.com/radareorg/radare2/releases/download/''"

definition get_package_path :: "path \<Rightarrow> string \<Rightarrow> path" where
  "get_package_path r2env_path package_name =
     os_path_join (os_path_join r2env_path PACKAGES_DIR) package_name"

definition list_installed_packages :: "path \<Rightarrow> node \<Rightarrow> error + string list" where
  "list_installed_packages r2env_path fs =
     (let pkg_dir = r2env_path @ [PACKAGES_DIR]
      in if isdir fs pkg_dir
         then (case listdir fs pkg_dir of
                 Inl e \<Rightarrow> Inl e
               | Inr names \<Rightarrow> Inr (filter (\<lambda>pkg. isdir fs (pkg_dir @ [pkg])) names))
         else Inr [])"

subsection \<open>Writing the catalog\<close>

text \<open>
  \<^verbatim>\<open>json.dump\<close> with its defaults (\<^verbatim>\<open>ensure_ascii\<close>, separators \<^verbatim>\<open>', '\<close> and
  \<^verbatim>\<open>': '\<close>) on the shape of \<^verbatim>\<open>profiles\<close>; a character is a code point below 256.
\<close>

definition hexdigit :: "nat \<Rightarrow> char" where
  "hexdigit n = ''0123456789abcdef'' ! (n mod 16)"

definition json_escape :: "char \<Rightarrow> string" where
  "json_escape c =
     (if c = CHR 0x22 then [CHR 0x5C, CHR 0x22]
      else if c = CHR 0x5C then [CHR 0x5C, CHR 0x5C]
      else if c = CHR 0x08 then [CHR 0x5C, CHR ''b'']
      else if c = CHR 0x0C then [CHR 0x5C, CHR ''f'']
      else if c = CHR 0x0A then [CHR 0x5C, CHR ''n'']
      else if c = CHR 0x0D then [CHR 0x5C, CHR ''r'']
      else if c = CHR 0x09 then [CHR 0x5C, CHR ''t'']
      else if (32::nat) \<le> of_char c \<and> of_char c \<le> (126::nat) then [c]
      else [CHR 0x5C, CHR ''u'', CHR ''0'', CHR ''0'',
            hexdigit (of_char c div 16), hexdigit (of_char c)])"

definition json_str :: "string \<Rightarrow> string" where
  "json_str s = [CHR 0x22] @ concat (map json_escape s) @ [CHR 0x22]"

definition json_packages :: "(string \<times> string) list \<Rightarrow> string" where
  "json_packages pkgs =
     ''{'' @ join '', '' (map (\<lambda>(platform, name). json_str platform @ '': '' @ json_str name) pkgs)
     @ ''}''"

definition json_version :: "version \<Rightarrow> string" where
  "json_version v =
     ''{'' @ json_str ''id'' @ '': '' @ json_str (version_id v) @ '', ''
     @ json_str ''packages'' @ '': '' @ json_packages (version_packages v) @ ''}''"

definition json_package :: "package \<Rightarrow> string" where
  "json_package pk =
     ''{'' @ json_str ''source'' @ '': '' @ json_str (package_source pk) @ '', ''
     @ json_str ''versions'' @ '': ['' @ join '', '' (map json_version (package_versions pk))
     @ '']}''"

definition json_dump :: "profiles \<Rightarrow> string" where
  "json_dump profiles =
     ''{'' @ join '', '' (map (\<lambda>(name, pk). json_str name @ '': '' @ json_package pk) profiles)
     @ ''}''"

text \<open>
  \<^verbatim>\<open>update_radare2_profiles\<close>. The answer of the GitHub API (after
  \<^verbatim>\<open>raise_for_status\<close> and \<^verbatim>\<open>.json()\<close>) is the argument \<open>gh_release_info_req\<close>: the release
  list, or the exception the request raised. The result is what the call raised, if
  anything, and the filesystem it leaves.
\<close>

definition update_radare2_profiles ::
    "path \<Rightarrow> error + release list \<Rightarrow> node \<Rightarrow> (error + unit) \<times> node" where
  "update_radare2_profiles r2env_path gh_release_info_req fs =
     (case gh_release_info_req of
        Inl e \<Rightarrow> (Inl e, fs)
      | Inr gh_release_info \<Rightarrow>
          (case build_profiles gh_release_info of
             Inl e \<Rightarrow> (Inl e, fs)
           | Inr profiles \<Rightarrow>
               (case (if \<not> isdir fs r2env_path then makedirs fs r2env_path else Inr fs) of
                  Inl e \<Rightarrow> (Inl e, fs)
                | Inr fs1 \<Rightarrow>
                    (case write_file fs1 (r2env_path @ [''profiles.json'']) (json_dump profiles) of
                       Inl e \<Rightarrow> (Inl e, fs1)
                     | Inr fs2 \<Rightarrow> (Inr (), fs2)))))"

subsection \<open>The outside world\<close>

text \<open>
  What the package manager calls but does not define: the helpers it imports from
  \<^verbatim>\<open>r2env.tools\<close> (\<^verbatim>\<open>host_distname\<close>, \<^verbatim>\<open>exit_if_not_exists\<close>, \<^verbatim>\<open>git_fetch\<close>,
  \<^verbatim>\<open>git_clean\<close>), the download client \<^verbatim>\<open>wget.download\<close>, the shell (\<^verbatim>\<open>os.system\<close>),
  the clock and \<^verbatim>\<open>os.uname\<close>. Each is a parameter: a command is any function from the
  filesystem it finds to its result and the filesystem it leaves.
  \<^verbatim>\<open>_install_windows_package\<close> unpacks a zip archive with \<^verbatim>\<open>zipfile\<close> and copies the
  binaries; its outcome is a parameter too.
\<close>

record externals =
  host_distname :: "string option"
  uname :: string
  timestamp :: string
  exit_if_not_exists :: "string list \<Rightarrow> error option"
  git_fetch :: "string \<Rightarrow> string \<Rightarrow> path \<Rightarrow> node \<Rightarrow> (error + unit) \<times> node"
  git_clean :: "path \<Rightarrow> node \<Rightarrow> (error + unit) \<times> node"
  wget_download :: "string \<Rightarrow> string \<Rightarrow> node \<Rightarrow> (error + unit) \<times> node"
  os_system :: "string \<Rightarrow> node \<Rightarrow> int \<times> node"
  install_windows_package :: "string \<Rightarrow> node \<Rightarrow> (error + bool) \<times> node"

text \<open>
  A path as the string the Python code holds, up to repeated and trailing separators.
\<close>

definition path_str :: "path \<Rightarrow> string" where
  "path_str p = concat (map (\<lambda>c. ''/'' @ c) p)"

text \<open>\<^verbatim>\<open>x in s\<close> for a string \<open>s\<close>: a \<^verbatim>\<open>TypeError\<close> when \<open>x\<close> is \<^verbatim>\<open>None\<close>.\<close>

definition in_str :: "string option \<Rightarrow> string \<Rightarrow> error + bool" where
  "in_str x s = (case x of None \<Rightarrow> Inl TypeError | Some a \<Rightarrow> Inr (str_in a s))"

subsection \<open>Catalogue lookups\<close>

definition if_package_not_available :: "profiles \<Rightarrow> string \<Rightarrow> string \<Rightarrow> bool" where
  "if_package_not_available packages profile version =
     (case map_of packages profile of
        None \<Rightarrow> True
      | Some pk \<Rightarrow> find (\<lambda>available_version. version_id available_version = version)
                    (package_versions pk) = None)"

text \<open>The loop over \<^verbatim>\<open>self._packages[profile]["versions"]\<close> in \<^verbatim>\<open>_get_pkgname\<close>.\<close>

fun get_pkgname_loop :: "version list \<Rightarrow> string \<Rightarrow> string option \<Rightarrow> string option" where
  "get_pkgname_loop [] version cos = None"
| "get_pkgname_loop (pkgv # rest) version cos =
     (if version_id pkgv = version
      then (case cos of
              None \<Rightarrow> get_pkgname_loop rest version cos
            | Some c \<Rightarrow>
                (case map_of (version_packages pkgv) c of
                   Some pkgname \<Rightarrow> Some pkgname
                 | None \<Rightarrow> get_pkgname_loop rest version cos))
      else get_pkgname_loop rest version cos)"

definition get_pkgname :: "profiles \<Rightarrow> string \<Rightarrow> string \<Rightarrow> string option \<Rightarrow> string option" where
  "get_pkgname packages profile version cos =
     (case map_of packages profile of
        None \<Rightarrow> None
      | Some pk \<Rightarrow> get_pkgname_loop (package_versions pk) version cos)"

definition get_disturl :: "profiles \<Rightarrow> string \<Rightarrow> string \<Rightarrow> string option \<Rightarrow> string option" where
  "get_disturl packages profile version cos =
     (case get_pkgname packages profile version cos of
        Some pkgname \<Rightarrow> Some (join ''/'' [DOWNLOAD_URL, version, pkgname])
      | None \<Rightarrow> None)"

subsection \<open>Installing and removing a binary distribution\<close>

definition unsupported :: "externals \<Rightarrow> error" where
  "unsupported ext = PackageManagerException (''Operative System not supported: '' @ uname ext)"

text \<open>
  \<^verbatim>\<open>_install_from_dist\<close>. \<^verbatim>\<open>"/".join([..., pkgname])\<close> raises \<^verbatim>\<open>TypeError\<close> when
  \<^verbatim>\<open>pkgname\<close> is \<^verbatim>\<open>None\<close>; a \<^verbatim>\<open>URLError\<close> or \<^verbatim>\<open>ConnectionResetError\<close> of the download
  is raised again as a \<^verbatim>\<open>PackageManagerException\<close>.
\<close>

definition install_from_dist ::
    "externals \<Rightarrow> profiles \<Rightarrow> path \<Rightarrow> string \<Rightarrow> string \<Rightarrow> node \<Rightarrow> (error + bool) \<times> node" where
  "install_from_dist ext packages r2env_path profile version fs =
     (let dist_name = host_distname ext;
          disturl = get_disturl packages profile version dist_name;
          pkgname = get_pkgname packages profile version dist_name
      in case pkgname of
           None \<Rightarrow> (Inl TypeError, fs)
         | Some pkgname' \<Rightarrow>
             (let pkgfile = join ''/'' [path_str r2env_path, ''src'', pkgname']
              in case disturl of
                   None \<Rightarrow> (Inl TypeError, fs)
                 | Some url \<Rightarrow>
                     (case wget_download ext url pkgfile fs of
                        (Inl (URLError err), fs1) \<Rightarrow>
                          (Inl (PackageManagerException
                             (''Failed to download '' @ profile @ '' package. Error: '' @ err)), fs1)
                      | (Inl (ConnectionResetError err), fs1) \<Rightarrow>
                          (Inl (PackageManagerException
                             (''Failed to download '' @ profile @ '' package. Error: '' @ err)), fs1)
                      | (Inl e, fs1) \<Rightarrow> (Inl e, fs1)
                      | (Inr u, fs1) \<Rightarrow>
                          if dist_name \<in> {Some ''mac_x64'', Some ''mac_arm64''}
                          then (case os_system ext (''sudo installer -pkg '' @ pkgfile @ '' -target /'') fs1 of
                                  (rc, fs2) \<Rightarrow> (Inr (rc = 0), fs2))
                          else (case in_str dist_name ''w64'' of
                                  Inl e \<Rightarrow> (Inl e, fs1)
                                | Inr True \<Rightarrow> install_windows_package ext pkgfile fs1
                                | Inr False \<Rightarrow>
                                    if dist_name \<in> {Some ''deb_x64'', Some ''deb_i386''}
                                    then (case os_system ext (''sudo dpkg -i '' @ pkgfile) fs1 of
                                            (rc, fs2) \<Rightarrow> (Inr (rc = 0), fs2))
                                    else (case in_str dist_name ''android'' of
                                            Inl e \<Rightarrow> (Inl e, fs1)
                                          | Inr True \<Rightarrow>
                                              (case os_system ext ''apt install radare2'' fs1 of
                                                 (rc, fs2) \<Rightarrow> (Inr (rc = 0), fs2))
                                          | Inr False \<Rightarrow> (Inl (unsupported ext), fs1))))))"

definition uninstall_from_dist ::
    "externals \<Rightarrow> path \<Rightarrow> string \<Rightarrow> string \<Rightarrow> node \<Rightarrow> (error + bool) \<times> node" where
  "uninstall_from_dist ext r2env_path profile version fs =
     (let dist_name = host_distname ext
      in case in_str dist_name ''w64'' of
           Inl e \<Rightarrow> (Inl e, fs)
         | Inr True \<Rightarrow>
             (let dst = r2env_path @ [''bin'']
              in case rmtree fs dst of
                   Inr fs1 \<Rightarrow> (Inr True, fs1)
                 | Inl (OSError err) \<Rightarrow>
                     (Inl (PackageManagerException
                        (''An issue occurred while removing '' @ path_str dst @ ''. Error: '' @ err)), fs)
                 | Inl e \<Rightarrow> (Inl e, fs))
         | Inr False \<Rightarrow>
             if dist_name \<in> {Some ''mac_x64'', Some ''mac_arm64''}
             then (let pkgname = ''org.radare.radare2''
                   in case os_system ext (''pkgutil --pkg-info '' @ pkgname) fs of (rc1, fs1) \<Rightarrow>
                      case os_system ext
                             (''cd / && pkgutil --only-files --files '' @ pkgname @ '' | ''
                              @ ''tr '' @ [CHR 0x27, CHR 0x5C, CHR ''n'', CHR 0x27] @ '' ''
                              @ [CHR 0x27, CHR 0x5C, CHR ''0'', CHR 0x27]
                              @ '' | xargs -n 1 -0 sudo rm -f'') fs1 of (rc2, fs2) \<Rightarrow>
                      case os_system ext
                             (''cd / && pkgutil --only-dirs --files '' @ pkgname @ '' | ''
                              @ ''tail -r | tr '' @ [CHR 0x27, CHR 0x5C, CHR ''n'', CHR 0x27] @ '' ''
                              @ [CHR 0x27, CHR 0x5C, CHR ''0'', CHR 0x27]
                              @ '' | xargs -n 1 -0 sudo rmdir 2>/dev/null'') fs2 of (rc3, fs3) \<Rightarrow>
                      case os_system ext (''sudo pkgutil --forget '' @ pkgname) fs3 of (rc4, fs4) \<Rightarrow>
                        (Inr (0 + rc1 + rc2 + rc3 + rc4 = 0), fs4))
             else if dist_name \<in> {Some ''deb_x64'', Some ''deb_i386''}
             then (case os_system ext (''sudo dpkg -r '' @ profile) fs of
                     (rc, fs1) \<Rightarrow> (Inr (rc = 0), fs1))
             else (case in_str dist_name ''android'' of
                     Inl e \<Rightarrow> (Inl e, fs)
                   | Inr True \<Rightarrow>
                       (case os_system ext ''sudo dpkg -r radare2'' fs of
                          (rc, fs1) \<Rightarrow> (Inr (rc = 0), fs1))
                   | Inr False \<Rightarrow> (Inl (unsupported ext), fs)))"

subsection \<open>Building from source\<close>

definition build_using_acr ::
    "externals \<Rightarrow> path \<Rightarrow> path \<Rightarrow> path \<Rightarrow> path \<Rightarrow> node \<Rightarrow> (error + bool) \<times> node" where
  "build_using_acr ext source_path dst_path logfile r2env_path fs =
     (if host_distname ext \<noteq> None \<and> in_str (host_distname ext) ''w64'' = Inr True
      then (Inl (PackageManagerException
                   ''acr is not supported on Windows platform. Use meson instead.''), fs)
      else (case exit_if_not_exists ext [''make''] of
              Some e \<Rightarrow> (Inl e, fs)
            | None \<Rightarrow>
                (let extra_flags = (if isfile fs [''default.prop'']
                                    then '' --with-compiler=termux'' else []);
                     config_path = path_str r2env_path @ ''/lib/pkgconfig'';
                     cmd = ''(export PKG_CONFIG_PATH='' @ [CHR 0x22] @ config_path @ [CHR 0x22] @ '';''
                           @ ''cd '' @ path_str source_path @ '' && ''
                           @ ''rm -rf shlr/capstone && ''
                           @ ''./configure '' @ extra_flags @ '' --with-rpath --prefix=''
                           @ path_str dst_path @ '' 2>&1 && ''
                           @ ''make -j4 2>&1 && ''
                           @ ''make install) > '' @ path_str logfile
                 in case os_system ext cmd fs of (rc, fs1) \<Rightarrow> (Inr (rc = 0), fs1))))"

definition build_using_meson ::
    "externals \<Rightarrow> path \<Rightarrow> path \<Rightarrow> path \<Rightarrow> path \<Rightarrow> node \<Rightarrow> (error + bool) \<times> node" where
  "build_using_meson ext source_path dst_path logfile r2env_path fs =
     (case exit_if_not_exists ext [''meson'', ''ninja''] of
        Some e \<Rightarrow> (Inl e, fs)
      | None \<Rightarrow>
          (let config_path = path_str r2env_path @ ''/lib/pkgconfig'';
               cmd = ''(export PKG_CONFIG_PATH='' @ [CHR 0x22] @ config_path @ [CHR 0x22] @ '';''
                     @ ''cd '' @ [CHR 0x22] @ path_str source_path @ [CHR 0x22]
                     @ '' && rm -rf build && ''
                     @ ''meson build --buildtype=release --prefix='' @ path_str dst_path
                     @ '' -Dlocal=true 2>&1 && ''
                     @ ''ninja -C build && ''
                     @ ''ninja -C build install) > '' @ path_str logfile @ '' && ''
                     @ ''for a in '' @ path_str dst_path @ ''/bin/* ; do install_name_tool -add_rpath ''
                     @ path_str dst_path @ ''/lib $a ; done''
           in case os_system ext cmd fs of (rc, fs1) \<Rightarrow> (Inr (rc = 0), fs1)))"

text \<open>
  \<^verbatim>\<open>_build_from_source\<close>; \<^verbatim>\<open>self._packages[profile]\<close> raises \<^verbatim>\<open>KeyError\<close> on a
  profile the catalog lacks.
\<close>

definition build_from_source ::
    "externals \<Rightarrow> profiles \<Rightarrow> path \<Rightarrow> string \<Rightarrow> string \<Rightarrow> path \<Rightarrow> path \<Rightarrow> path \<Rightarrow> bool
     \<Rightarrow> node \<Rightarrow> (error + bool) \<times> node" where
  "build_from_source ext packages r2env_path profile version source_path dst_path logfile
       use_meson fs =
     (case exit_if_not_exists ext [''git''] of
        Some e \<Rightarrow> (Inl e, fs)
      | None \<Rightarrow>
          (case map_of packages profile of
             None \<Rightarrow> (Inl KeyError, fs)
           | Some pk \<Rightarrow>
               (case git_fetch ext (package_source pk) version source_path fs of
                  (Inl e, fs1) \<Rightarrow> (Inl e, fs1)
                | (Inr u, fs1) \<Rightarrow>
                    (case git_clean ext source_path fs1 of
                       (Inl e, fs2) \<Rightarrow> (Inl e, fs2)
                     | (Inr u', fs2) \<Rightarrow>
                         if use_meson
                         then build_using_meson ext source_path dst_path logfile r2env_path fs2
                         else build_using_acr ext source_path dst_path logfile r2env_path fs2))))"

subsection \<open>The orchestrator\<close>

text \<open>\<^verbatim>\<open>if not os.path.isdir(p): os.makedirs(p)\<close>\<close>

definition ensure_dir :: "node \<Rightarrow> path \<Rightarrow> (error + unit) \<times> node" where
  "ensure_dir fs p = (if \<not> os_path_isdir fs p then os_makedirs fs p else (Inr (), fs))"

text \<open>\<^verbatim>\<open>if os.path.isdir(p): shutil.rmtree(p)\<close>\<close>

definition remove_if_dir :: "node \<Rightarrow> path \<Rightarrow> (error + unit) \<times> node" where
  "remove_if_dir fs p = (if os_path_isdir fs p then shutil_rmtree fs p else (Inr (), fs))"

definition not_available_msg :: "string \<Rightarrow> string \<Rightarrow> string" where
  "not_available_msg profile version =
     profile @ ''@'' @ version @ '' package not available. Use '' @ [CHR 0x27] @ ''list''
     @ [CHR 0x27] @ '' command to see available packages.''"

text \<open>
  \<^verbatim>\<open>install_package\<close>. The state root \<open>r2env_path\<close> is given by its directory entries;
  \<open>profile\<close> and \<open>version\<close> enter the paths through \<^verbatim>\<open>os.path.join\<close>.
\<close>

definition install_package ::
    "externals \<Rightarrow> profiles \<Rightarrow> path \<Rightarrow> string \<Rightarrow> string \<Rightarrow> bool \<Rightarrow> bool \<Rightarrow> node
     \<Rightarrow> (error + unit) \<times> node" where
  "install_package ext packages r2env_path profile version use_meson use_dist fs =
     (let log_path = os_path_join r2env_path LOG_DIR;
          logfile = os_path_join log_path
                      (profile @ ''_'' @ version @ ''_'' @ timestamp ext @ ''_build.txt'');
          source_path = os_path_join (os_path_join r2env_path SOURCE_DIR) profile;
          dst_dir = os_path_join (os_path_join r2env_path PACKAGES_DIR)
                      (profile @ ''@'' @ version)
      in case ensure_dir fs log_path of
           (Inl e, fs1) \<Rightarrow> (Inl e, fs1)
         | (Inr u1, fs1) \<Rightarrow>
        (case ensure_dir fs1 source_path of
           (Inl e, fs2) \<Rightarrow> (Inl e, fs2)
         | (Inr u2, fs2) \<Rightarrow>
        (case ensure_dir fs2 dst_dir of
           (Inl e, fs3) \<Rightarrow> (Inl e, fs3)
         | (Inr u3, fs3) \<Rightarrow>
             if if_package_not_available packages profile version
             then (case remove_if_dir fs3 dst_dir of
                     (Inl e, fs4) \<Rightarrow> (Inl e, fs4)
                   | (Inr u4, fs4) \<Rightarrow>
                       (Inl (PackageManagerException (not_available_msg profile version)), fs4))
             else if use_dist
             then (case install_from_dist ext packages r2env_path profile version fs3 of
                     (Inl e, fs4) \<Rightarrow> (Inl e, fs4)
                   | (Inr True, fs4) \<Rightarrow> (Inr (), fs4)
                   | (Inr False, fs4) \<Rightarrow>
                       (case remove_if_dir fs4 dst_dir of
                          (Inl e, fs5) \<Rightarrow> (Inl e, fs5)
                        | (Inr u5, fs5) \<Rightarrow>
                            (Inl (PackageManagerException
                               (''[x] Failed to install '' @ profile @ ''@'' @ version @ ''.'')), fs5)))
             else (case build_from_source ext packages r2env_path profile version source_path
                          dst_dir logfile use_meson fs3 of
                     (Inl e, fs4) \<Rightarrow> (Inl e, fs4)
                   | (Inr True, fs4) \<Rightarrow> (Inr (), fs4)
                   | (Inr False, fs4) \<Rightarrow>
                       (case remove_if_dir fs4 dst_dir of
                          (Inl e, fs5) \<Rightarrow> (Inl e, fs5)
                        | (Inr u5, fs5) \<Rightarrow>
                            (Inl (PackageManagerException
                               (''[x] Failed to build '' @ profile @ ''@'' @ version @ ''. ''
                                @ ''Check '' @ path_str logfile @ '' for more information.'')), fs5))))))"

text \<open>
  The loop of \<^verbatim>\<open>uninstall_package\<close> over the installed packages; its result is
  \<^verbatim>\<open>pkg_found\<close>. \<^verbatim>\<open>profile, version = package.split("@")\<close> raises \<^verbatim>\<open>ValueError\<close>
  unless the split has exactly two parts.
\<close>

fun uninstall_loop ::
    "externals \<Rightarrow> path \<Rightarrow> string \<Rightarrow> bool \<Rightarrow> string list \<Rightarrow> node \<Rightarrow> (error + bool) \<times> node" where
  "uninstall_loop ext r2env_path package_name use_dist [] fs = (Inr False, fs)"
| "uninstall_loop ext r2env_path package_name use_dist (package # rest) fs =
     (if package_name = package
      then (if use_dist
            then (case split CHR ''@'' package of
                    [profile, version] \<Rightarrow>
                      (case uninstall_from_dist ext r2env_path profile version fs of
                         (Inl e, fs1) \<Rightarrow> (Inl e, fs1)
                       | (Inr b, fs1) \<Rightarrow> (Inr True, fs1))
                  | _ \<Rightarrow> (Inl ValueError, fs))
            else (let pkg_dir = r2env_path @ [PACKAGES_DIR, package]
                  in case rmtree fs pkg_dir of
                       Inr fs1 \<Rightarrow> (Inr True, fs1)
                     | Inl (OSError err) \<Rightarrow>
                         (Inl (PackageManagerException
                            (''[x] Unable to remove package '' @ package_name @ ''. Error: '' @ err)), fs)
                     | Inl e \<Rightarrow> (Inl e, fs)))
      else uninstall_loop ext r2env_path package_name use_dist rest fs)"

definition uninstall_package ::
    "externals \<Rightarrow> path \<Rightarrow> string \<Rightarrow> bool \<Rightarrow> node \<Rightarrow> (error + unit) \<times> node" where
  "uninstall_package ext r2env_path package_name use_dist fs =
     (case list_installed_packages r2env_path fs of
        Inl e \<Rightarrow> (Inl e, fs)
      | Inr installed \<Rightarrow>
          (case uninstall_loop ext r2env_path package_name use_dist installed fs of
             (Inl e, fs1) \<Rightarrow> (Inl e, fs1)
           | (Inr pkg_found, fs1) \<Rightarrow>
               if \<not> pkg_found
               then (Inl (PackageManagerException
                            (''[x] Unable to find installed package '' @ package_name)), fs1)
               else (Inr (), fs1)))"

subsection \<open>Observations used in the statements\<close>

text \<open>The version tags of the primary package in a rebuilt catalog, in catalog order.\<close>

definition radare2_version_ids :: "release list \<Rightarrow> error + string list" where
  "radare2_version_ids gh_release_info =
     (case build_profiles gh_release_info of
        Inl e \<Rightarrow> Inl e
      | Inr profiles \<Rightarrow>
          (case map_of profiles ''radare2'' of
             None \<Rightarrow> Inl KeyError
           | Some pk \<Rightarrow> Inr (map version_id (package_versions pk))))"

text \<open>The token sequence of an asset name: \<^verbatim>\<open>asset_ref\<close> before any removal.\<close>

definition asset_tokens :: "string \<Rightarrow> string list" where
  "asset_tokens name = split CHR ''-'' (replace CHR ''_'' CHR ''-'' (fst (splitext name)))"

subsection \<open>Example values\<close>

text \<open>
  A state root \<^verbatim>\<open>/home/r2env\<close> holding a catalog file, a \<^verbatim>\<open>bin\<close> directory, and a
  \<^verbatim>\<open>versions\<close> directory with one installed package and one plain file.
\<close>

definition example_root :: path where
  "example_root = [''home'', ''r2env'']"

definition example_fs :: node where
  "example_fs =
     Dir [(''home'',
           Dir [(''r2env'',
                 Dir [(''profiles.json'', File ''{}''),
                      (''bin'', Dir [(''radare2.exe'', File [])]),
                      (''versions'',
                       Dir [(''radare2@5.8.8'', Dir []),
                            (''notes.txt'', File ''x'')])])])]"

definition example_catalog :: profiles where
  "example_catalog =
     [(''radare2'',
       \<lparr>package_source = ''https://github.com/radareorg/radare2'',
        package_versions =
          [\<lparr>version_id = ''5.9.0'',
            version_packages = [(''deb_x64'', ''radare2_5.9.0_amd64.deb'')]\<rparr>,
           git_version]\<rparr>)]"

text \<open>
  An outside world on the platform \<open>dist\<close> in which every tool is present, every
  command succeeds and none of them touches the modelled filesystem.
\<close>

definition quiet_externals :: "string option \<Rightarrow> externals" where
  "quiet_externals dist =
     \<lparr>host_distname = dist,
      uname = ''Linux'',
      timestamp = ''1000'',
      exit_if_not_exists = (\<lambda>tools. None),
      git_fetch = (\<lambda>url version source_path fs. (Inr (), fs)),
      git_clean = (\<lambda>source_path fs. (Inr (), fs)),
      wget_download = (\<lambda>url pkgfile fs. (Inr (), fs)),
      os_system = (\<lambda>cmd fs. (0, fs)),
      install_windows_package = (\<lambda>pkgfile fs. (Inr True, fs))\<rparr>"

text \<open>The same world, except that the download fails with a \<^verbatim>\<open>URLError\<close>.\<close>

definition offline_externals :: "string option \<Rightarrow> externals" where
  "offline_externals dist =
     (quiet_externals dist)
       \<lparr>wget_download := (\<lambda>url pkgfile fs. (Inl (URLError ''timed out''), fs))\<rparr>"

text \<open>The same world, except that every shell command fails and leaves a log file.\<close>

definition failing_build_externals :: "string option \<Rightarrow> externals" where
  "failing_build_externals dist =
     (quiet_externals dist)
       \<lparr>os_system := (\<lambda>cmd fs.
          (case write_file fs (example_root @ [LOG_DIR, ''radare2_git_1000_build.txt''])
                  ''configure: error'' of
             Inl e \<Rightarrow> (1, fs)
           | Inr fs' \<Rightarrow> (1, fs')))\<rparr>"

subsection \<open>Assumptions on the outside world\<close>

text \<open>A command keeps the directory \<open>d\<close>: whenever \<open>d\<close> is a directory before, it is one after.\<close>

definition keeps_dir :: "path \<Rightarrow> (node \<Rightarrow> 'a \<times> node) \<Rightarrow> bool" where
  "keeps_dir d f = (\<forall>fs. isdir fs d \<longrightarrow> isdir (snd (f fs)) d)"

text \<open>Every command of the outside world keeps the directory \<open>d\<close>.\<close>

definition externals_keep_dir :: "externals \<Rightarrow> path \<Rightarrow> bool" where
  "externals_keep_dir ext d =
     ((\<forall>url version source_path. keeps_dir d (git_fetch ext url version source_path))
      \<and> (\<forall>source_path. keeps_dir d (git_clean ext source_path))
      \<and> (\<forall>url pkgfile. keeps_dir d (wget_download ext url pkgfile))
      \<and> (\<forall>cmd. keeps_dir d (os_system ext cmd))
      \<and> (\<forall>pkgfile. keeps_dir d (install_windows_package ext pkgfile)))"

subsection \<open>Plain names\<close>

text \<open>
  A string without a separator and without a null character stays inside one path
  component. A plain name is such a string that is one directory entry when joined to
  a path: not empty, and neither \<open>.\<close> nor \<open>..\<close>. A plain path consists of plain names.
\<close>

definition separator_free :: "string \<Rightarrow> bool" where
  "separator_free s = (CHR ''/'' \<notin> set s \<and> CHR 0x00 \<notin> set s)"

definition plain_name :: "string \<Rightarrow> bool" where
  "plain_name s = (s \<noteq> [] \<and> separator_free s \<and> s \<noteq> ''.'' \<and> s \<noteq> ''..'')"

definition plain_path :: "path \<Rightarrow> bool" where
  "plain_path p = list_all plain_name p"

subsection \<open>Order of the platform keys\<close>

text \<open>The platforms that the assets of a release classify to, in asset order.\<close>

fun asset_platforms :: "string \<Rightarrow> string list \<Rightarrow> string list" where
  "asset_platforms tag [] = []"
| "asset_platforms tag (name # rest) =
     (case classify tag name of
        Inr (Some platform) \<Rightarrow> platform # asset_platforms tag rest
      | _ \<Rightarrow> asset_platforms tag rest)"

text \<open>The elements of \<open>xs\<close> in the order of their first occurrence, after those of \<open>seen\<close>.\<close>

fun first_seen :: "'a list \<Rightarrow> 'a list \<Rightarrow> 'a list" where
  "first_seen seen [] = seen"
| "first_seen seen (x # xs) = first_seen (if x \<in> set seen then seen else seen @ [x]) xs"

section \<open>Properties\<close>

subsection \<open>The filesystem operations\<close>

lemma lookup_mktree: "lookup (mktree p) p = Some (Dir [])"
  by (induction p) simp_all

lemma makedirs_lookup:
  "makedirs fs p = Inr fs' \<Longrightarrow> \<exists>es. lookup fs' p = Some (Dir es)"
proof (induction fs p arbitrary: fs' rule: makedirs.induct)
  case (3 es n ns)
  show ?case
  proof (cases "map_of es n")
    case None
    with "3.prems" have "fs' = Dir (AList.update n (mktree ns) es)" by simp
    then show ?thesis by (simp add: update_conv' lookup_mktree)
  next
    case (Some child)
    with "3.prems" obtain child' where c: "makedirs child ns = Inr child'"
      and fs': "fs' = Dir (AList.update n child' es)"
      by (auto split: sum.splits)
    from "3.IH" [OF Some c] fs' show ?thesis by (simp add: update_conv')
  qed
qed simp_all

lemma makedirs_keeps_dir:
  "makedirs fs p = Inr fs' \<Longrightarrow> lookup fs q = Some (Dir ds) \<Longrightarrow>
   \<exists>ds'. lookup fs' q = Some (Dir ds')"
proof (induction fs p arbitrary: fs' q ds rule: makedirs.induct)
  case (3 es n ns)
  show ?case
  proof (cases q)
    case Nil
    with "3.prems" show ?thesis by (auto split: option.splits sum.splits)
  next
    case (Cons m ms)
    show ?thesis
    proof (cases "m = n")
      case False
      with "3.prems" Cons show ?thesis
        by (auto simp: update_conv' split: option.splits sum.splits)
    next
      case True
      with "3.prems"(2) Cons obtain child where ch: "map_of es n = Some child"
        and lk: "lookup child ms = Some (Dir ds)"
        by (auto split: option.splits)
      with "3.prems"(1) obtain child' where c: "makedirs child ns = Inr child'"
        and fs': "fs' = Dir (AList.update n child' es)"
        by (auto split: sum.splits)
      from "3.IH" [OF ch c lk] fs' Cons True show ?thesis by (simp add: update_conv')
    qed
  qed
qed simp_all

lemma rmtree_lookup:
  "rmtree fs p = Inr fs' \<Longrightarrow> lookup fs' p = None"
proof (induction fs p arbitrary: fs' rule: rmtree.induct)
  case (3 es n)
  then show ?case by (auto simp: delete_conv' split: option.splits node.splits)
next
  case (4 es n m ns)
  from "4.prems" obtain child child' where ch: "map_of es n = Some child"
    and c: "rmtree child (m # ns) = Inr child'"
    and fs': "fs' = Dir (AList.update n child' es)"
    by (auto split: option.splits sum.splits)
  from "4.IH" [OF ch c] fs' show ?case by (simp add: update_conv')
qed simp_all

lemma rmtree_succeeds:
  "lookup fs p = Some (Dir ds) \<Longrightarrow> p \<noteq> [] \<Longrightarrow> \<exists>fs'. rmtree fs p = Inr fs'"
proof (induction fs p arbitrary: ds rule: rmtree.induct)
  case (3 es n)
  then show ?case by (auto split: option.splits node.splits)
next
  case (4 es n m ns)
  from "4.prems" obtain child where ch: "map_of es n = Some child"
    and lk: "lookup child (m # ns) = Some (Dir ds)"
    by (auto split: option.splits)
  from "4.IH" [OF ch lk] ch show ?case by auto
qed simp_all

lemma rmtree_sibling:
  "rmtree fs (r @ a # as) = Inr fs' \<Longrightarrow> b \<noteq> a \<Longrightarrow>
   lookup fs' (r @ b # bs) = lookup fs (r @ b # bs)"
proof (induction r arbitrary: fs fs')
  case Nil
  then show ?case
    by (cases fs; cases as)
       (auto simp: update_conv' delete_conv' split: option.splits node.splits sum.splits)
next
  case (Cons c cs)
  obtain m ns where mn: "cs @ a # as = m # ns" by (cases cs) auto
  from Cons.prems(1) mn obtain es child child' where fs: "fs = Dir es"
    and ch: "map_of es c = Some child"
    and c: "rmtree child (cs @ a # as) = Inr child'"
    and fs': "fs' = Dir (AList.update c child' es)"
    by (cases fs) (auto split: option.splits sum.splits)
  from Cons.IH [OF c Cons.prems(2)] fs ch fs' show ?case by (simp add: update_conv')
qed

lemma lookup_snoc:
  "lookup fs (p @ [n]) = Some x \<Longrightarrow>
   \<exists>es. lookup fs p = Some (Dir es) \<and> map_of es n = Some x"
proof (induction p arbitrary: fs)
  case Nil
  then show ?case by (cases fs) (auto split: option.splits)
next
  case (Cons c cs)
  then show ?case by (cases fs) (auto split: option.splits)
qed

lemma write_file_lookup:
  "write_file fs p c = Inr fs' \<Longrightarrow> lookup fs' p = Some (File c)"
proof (induction fs p c arbitrary: fs' rule: write_file.induct)
  case (3 es n c)
  then show ?case by (auto simp: update_conv' split: option.splits node.splits)
next
  case (4 es n m ns c)
  from "4.prems" obtain child child' where ch: "map_of es n = Some child"
    and c: "write_file child (m # ns) c = Inr child'"
    and fs': "fs' = Dir (AList.update n child' es)"
    by (auto split: option.splits sum.splits)
  from "4.IH" [OF ch c] fs' show ?case by (simp add: update_conv')
qed simp_all

subsection \<open>The catalog builder\<close>

lemma scan_assets_map_of:
  "scan_assets tag names pkgs = Inr out \<Longrightarrow>
   map_of out p =
     (case filter (\<lambda>n. classify tag n = Inr (Some p)) names of
        [] \<Rightarrow> map_of pkgs p
      | x # xs \<Rightarrow> Some (last (x # xs)))"
proof (induction names arbitrary: pkgs)
  case Nil
  then show ?case by simp
next
  case (Cons name rest)
  show ?case
  proof (cases "classify tag name")
    case (Inl e)
    with Cons.prems show ?thesis by simp
  next
    case (Inr r)
    show ?thesis
    proof (cases r)
      case None
      with Inr Cons.prems have "scan_assets tag rest pkgs = Inr out" by simp
      from Cons.IH [OF this] Inr None show ?thesis by simp
    next
      case (Some q)
      with Inr Cons.prems have "scan_assets tag rest (AList.update q name pkgs) = Inr out"
        by simp
      from Cons.IH [OF this] Inr Some show ?thesis
        by (auto simp: update_conv' split: list.splits)
    qed
  qed
qed

lemma scan_releases_ids:
  "scan_releases rs acc = Inr out \<Longrightarrow>
   map version_id out = map version_id acc @ map tag_name rs"
  by (induction rs arbitrary: acc) (auto split: sum.splits)

subsection \<open>The registry and the uninstall loop\<close>

lemma list_installed_packages_total:
  "\<exists>installed. list_installed_packages r fs = Inr installed"
  by (auto simp: list_installed_packages_def Let_def isdir_def listdir_def
           split: option.splits node.splits)

lemma uninstall_loop_absent:
  "package_name \<notin> set installed \<Longrightarrow>
   uninstall_loop ext r package_name use_dist installed fs = (Inr False, fs)"
  by (induction installed) auto

lemma write_file_parent:
  "write_file fs (p @ [n]) c = Inr fs' \<Longrightarrow> \<exists>es. lookup fs' p = Some (Dir es)"
  using write_file_lookup [of fs "p @ [n]" c fs'] lookup_snoc [of fs' p n "File c"] by blast

subsection \<open>The registry lists directories\<close>

lemma isdir_listed:
  assumes "isdir fs (r @ [PACKAGES_DIR, pkg])"
  shows "\<exists>installed. list_installed_packages r fs = Inr installed \<and> pkg \<in> set installed"
proof -
  from assms obtain ds where "lookup fs ((r @ [PACKAGES_DIR]) @ [pkg]) = Some (Dir ds)"
    by (auto simp: isdir_def split: option.splits node.splits)
  from lookup_snoc [OF this] obtain es where es: "lookup fs (r @ [PACKAGES_DIR]) = Some (Dir es)"
    and m: "map_of es pkg = Some (Dir ds)" by blast
  from m have "pkg \<in> set (map fst es)"
    by (metis map_of_SomeD fst_conv image_eqI set_map)
  with es assms show ?thesis
    by (simp add: list_installed_packages_def Let_def isdir_def listdir_def)
qed

lemma listed_isdir:
  "list_installed_packages r fs = Inr installed \<Longrightarrow> pkg \<in> set installed \<Longrightarrow>
   isdir fs (r @ [PACKAGES_DIR, pkg])"
  by (auto simp: list_installed_packages_def Let_def split: if_splits sum.splits)

subsection \<open>Commands that keep a directory\<close>

lemma keeps_wget:
  "externals_keep_dir ext d \<Longrightarrow> isdir a d \<Longrightarrow> wget_download ext url f a = (x, b) \<Longrightarrow> isdir b d"
  unfolding externals_keep_dir_def keeps_dir_def by (metis snd_conv)

lemma keeps_system:
  "externals_keep_dir ext d \<Longrightarrow> isdir a d \<Longrightarrow> os_system ext cmd a = (x, b) \<Longrightarrow> isdir b d"
  unfolding externals_keep_dir_def keeps_dir_def by (metis snd_conv)

lemma keeps_windows:
  "externals_keep_dir ext d \<Longrightarrow> isdir a d \<Longrightarrow> install_windows_package ext f a = (x, b) \<Longrightarrow>
   isdir b d"
  unfolding externals_keep_dir_def keeps_dir_def by (metis snd_conv)

lemma keeps_fetch:
  "externals_keep_dir ext d \<Longrightarrow> isdir a d \<Longrightarrow> git_fetch ext url v p a = (x, b) \<Longrightarrow> isdir b d"
  unfolding externals_keep_dir_def keeps_dir_def by (metis snd_conv)

lemma keeps_clean:
  "externals_keep_dir ext d \<Longrightarrow> isdir a d \<Longrightarrow> git_clean ext p a = (x, b) \<Longrightarrow> isdir b d"
  unfolding externals_keep_dir_def keeps_dir_def by (metis snd_conv)

lemma install_from_dist_keeps:
  assumes k: "externals_keep_dir ext d" and d: "isdir fs d"
    and i: "install_from_dist ext packages r profile version fs = (res, fs')"
  shows "isdir fs' d"
proof -
  note w = keeps_wget [OF k d]
  note s = keeps_system [OF k]
  note z = keeps_windows [OF k]
  show ?thesis
  proof (cases "get_pkgname packages profile version (host_distname ext)")
    case None
    with i d show ?thesis by (simp add: install_from_dist_def Let_def)
  next
    case (Some pn)
    then obtain url where u: "get_disturl packages profile version (host_distname ext) = Some url"
      by (simp add: get_disturl_def)
    obtain x fs1 where dl: "wget_download ext url (join ''/'' [path_str r, ''src'', pn]) fs = (x, fs1)"
      by (cases "wget_download ext url (join ''/'' [path_str r, ''src'', pn]) fs") auto
    have d1: "isdir fs1 d" by (rule w [OF dl])
    show ?thesis
    proof (cases x)
      case (Inl e)
      with i Some u dl d1 show ?thesis
        by (cases e) (auto simp: install_from_dist_def Let_def)
    next
      case (Inr un)
      with i Some u dl d1 show ?thesis
        by (auto simp: install_from_dist_def Let_def
                 split: if_splits sum.splits bool.splits prod.splits
                 dest: s z)
    qed
  qed
qed

subsection \<open>The strategies keep a directory that the outside world keeps\<close>

lemma build_using_acr_keeps:
  assumes k: "externals_keep_dir ext d" and d: "isdir fs d"
    and b: "build_using_acr ext source_path dst_path logfile r fs = (res, fs')"
  shows "isdir fs' d"
  using b d keeps_system [OF k d]
  by (auto simp: build_using_acr_def Let_def split: if_splits option.splits prod.splits)

lemma build_using_meson_keeps:
  assumes k: "externals_keep_dir ext d" and d: "isdir fs d"
    and b: "build_using_meson ext source_path dst_path logfile r fs = (res, fs')"
  shows "isdir fs' d"
  using b d keeps_system [OF k d]
  by (auto simp: build_using_meson_def Let_def split: if_splits option.splits prod.splits)

lemma build_from_source_keeps:
  assumes k: "externals_keep_dir ext d" and d: "isdir fs d"
    and b: "build_from_source ext packages r profile version source_path dst_path logfile
              use_meson fs = (res, fs')"
  shows "isdir fs' d"
proof (cases "exit_if_not_exists ext [''git'']")
  case (Some e)
  with b d show ?thesis by (simp add: build_from_source_def)
next
  case None
  show ?thesis
  proof (cases "map_of packages profile")
    case none: None
    with b d None show ?thesis by (simp add: build_from_source_def)
  next
    case (Some pk)
    obtain x fs1 where f: "git_fetch ext (package_source pk) version source_path fs = (x, fs1)"
      by (cases "git_fetch ext (package_source pk) version source_path fs") auto
    have d1: "isdir fs1 d" by (rule keeps_fetch [OF k d f])
    show ?thesis
    proof (cases x)
      case (Inl e)
      with b None Some f d1 show ?thesis by (simp add: build_from_source_def)
    next
      case (Inr u)
      obtain y fs2 where c: "git_clean ext source_path fs1 = (y, fs2)"
        by (cases "git_clean ext source_path fs1") auto
      have d2: "isdir fs2 d" by (rule keeps_clean [OF k d1 c])
      show ?thesis
      proof (cases y)
        case Inl
        with b None Some f Inr c d2 show ?thesis by (simp add: build_from_source_def)
      next
        case Inr2: (Inr u')
        with b None Some f Inr c have
          "(if use_meson
            then build_using_meson ext source_path dst_path logfile r fs2
            else build_using_acr ext source_path dst_path logfile r fs2) = (res, fs')"
          by (simp add: build_from_source_def)
        then show ?thesis
          using build_using_meson_keeps [OF k d2] build_using_acr_keeps [OF k d2]
          by (auto split: if_splits)
      qed
    qed
  qed
qed

lemma uninstall_loop_source:
  "uninstall_loop ext r package_name False installed fs = (Inr True, fs') \<Longrightarrow>
   rmtree fs (r @ [PACKAGES_DIR, package_name]) = Inr fs'"
  by (induction installed) (auto simp: Let_def split: if_splits sum.splits error.splits)

lemma uninstall_package_source:
  assumes "uninstall_package ext r package_name False fs = (Inr (), fs')"
  shows "rmtree fs (r @ [PACKAGES_DIR, package_name]) = Inr fs'"
proof -
  from assms obtain installed where
    "uninstall_loop ext r package_name False installed fs = (Inr True, fs')"
    by (auto simp: uninstall_package_def split: sum.splits prod.splits if_splits)
  then show ?thesis by (rule uninstall_loop_source)
qed

subsection \<open>Asset normalisation\<close>

lemma split_nonempty: "split c s \<noteq> []"
  by (induction s) (auto split: list.splits)

lemma classify_wrong_first_token:
  "hd (asset_tokens name) \<noteq> ''radare2'' \<Longrightarrow> classify tag name = Inr None"
  using split_nonempty [of "CHR ''-''" "replace CHR ''_'' CHR ''-'' (fst (splitext name))"]
  by (auto simp: classify_def asset_tokens_def Let_def split: prod.splits list.splits)

lemma classify_tag_missing:
  "tag \<notin> set (asset_tokens name) \<Longrightarrow> classify tag name = Inr None"
  using split_nonempty [of "CHR ''-''" "replace CHR ''_'' CHR ''-'' (fst (splitext name))"]
  by (auto simp: classify_def asset_tokens_def Let_def split: prod.splits list.splits)

lemma classify_unknown_extension:
  assumes "map_of VERSION_FILTERS (snd (splitext name)) = None" and "tag \<noteq> ''radare2''"
  shows "classify tag name = Inr None"
proof -
  obtain stem ext where se: "splitext name = (stem, ext)" by (cases "splitext name") auto
  obtain t ts where ts: "split CHR ''-'' (replace CHR ''_'' CHR ''-'' stem) = t # ts"
    using split_nonempty [of "CHR ''-''" "replace CHR ''_'' CHR ''-'' stem"]
    by (cases "split CHR ''-'' (replace CHR ''_'' CHR ''-'' stem)") auto
  show ?thesis
    using assms se ts
    by (auto simp: classify_def Let_def list_remove_def)
qed

lemma classify_stores_nothing:
  assumes "map_of VERSION_FILTERS (snd (splitext name)) = None
           \<or> hd (asset_tokens name) \<noteq> ''radare2''
           \<or> tag \<notin> set (asset_tokens name)"
  shows "classify tag name \<noteq> Inr (Some platform)"
proof -
  obtain stem ext where se: "splitext name = (stem, ext)" by (cases "splitext name") auto
  obtain t ts where ts: "split CHR ''-'' (replace CHR ''_'' CHR ''-'' stem) = t # ts"
    using split_nonempty [of "CHR ''-''" "replace CHR ''_'' CHR ''-'' stem"]
    by (cases "split CHR ''-'' (replace CHR ''_'' CHR ''-'' stem)") auto
  show ?thesis
    using assms se ts
    by (auto simp: classify_def asset_tokens_def Let_def list_remove_def
             split: sum.splits option.splits if_splits)
qed

subsection \<open>A missing artifact\<close>

lemma install_from_dist_no_pkgname:
  "get_pkgname packages profile version (host_distname ext) = None \<Longrightarrow>
   install_from_dist ext packages r profile version fs = (Inl TypeError, fs)"
  by (simp add: install_from_dist_def Let_def)

subsection \<open>Paths of plain names\<close>

lemma split_no_separator: "c \<notin> set s \<Longrightarrow> split c s = [s]"
  by (induction s) auto

lemma components_plain: "plain_name s \<Longrightarrow> components s = [s]"
  by (simp add: plain_name_def separator_free_def components_def split_no_separator)

lemma os_path_join_plain: "plain_name s \<Longrightarrow> os_path_join p s = p @ [s]"
  by (cases s) (auto simp: os_path_join_def components_plain plain_name_def separator_free_def)

lemma plain_key:
  assumes "separator_free profile" and "separator_free version"
  shows "plain_name (profile @ ''@'' @ version)"
proof -
  have a: "CHR ''@'' \<in> set (profile @ ''@'' @ version)" by simp
  have b: "CHR ''@'' \<notin> set ''.''" and c: "CHR ''@'' \<notin> set ''..''" by simp_all
  from a b have 1: "profile @ ''@'' @ version \<noteq> ''.''" by metis
  from a c have 2: "profile @ ''@'' @ version \<noteq> ''..''" by metis
  have 3: "profile @ ''@'' @ version \<noteq> []" by simp
  have 4: "separator_free (profile @ ''@'' @ version)"
    using assms by (simp add: separator_free_def)
  from 1 2 3 4 show ?thesis unfolding plain_name_def by blast
qed

lemma plain_name_separator_free: "plain_name s \<Longrightarrow> separator_free s"
  by (simp add: plain_name_def)

lemma plain_path_no_null: "plain_path p \<Longrightarrow> CHR 0x00 \<notin> set (concat p)"
  by (induction p) (auto simp: plain_path_def plain_name_def separator_free_def)

lemma plain_constants:
  "plain_name LOG_DIR" "plain_name SOURCE_DIR" "plain_name PACKAGES_DIR"
  by (simp_all add: plain_name_def separator_free_def LOG_DIR_def SOURCE_DIR_def PACKAGES_DIR_def)

lemma lookup_prefix_dir:
  "lookup fs (a @ b) = Some x \<Longrightarrow> b \<noteq> [] \<Longrightarrow> \<exists>es. lookup fs a = Some (Dir es)"
proof (induction a arbitrary: fs)
  case Nil
  then show ?case by (cases fs; cases b) auto
next
  case (Cons c cs)
  then show ?case by (cases fs) (auto split: option.splits)
qed

lemma walk_plain:
  "plain_path p \<Longrightarrow> walk fs cur p = Inr q \<Longrightarrow> q = cur @ p"
proof (induction p arbitrary: cur)
  case Nil
  then show ?case by simp
next
  case (Cons c cs)
  from Cons.prems(1) have c: "c \<noteq> ''.''" "c \<noteq> ''..''" and cs: "plain_path cs"
    by (simp_all add: plain_path_def plain_name_def)
  from Cons.prems(2) c have "walk fs (cur @ [c]) cs = Inr q"
    by (simp split: option.splits node.splits if_splits)
  from Cons.IH [OF cs this] show ?case by simp
qed

lemma walk_plain_isdir:
  "plain_path p \<Longrightarrow> isdir fs (cur @ p) \<Longrightarrow> walk fs cur p = Inr (cur @ p)"
proof (induction p arbitrary: cur)
  case Nil
  then show ?case by simp
next
  case (Cons c cs)
  from Cons.prems(2) obtain ds where "lookup fs (cur @ c # cs) = Some (Dir ds)"
    by (auto simp: isdir_def split: option.splits node.splits)
  from lookup_prefix_dir [OF this] obtain es where es: "lookup fs cur = Some (Dir es)"
    by auto
  from Cons.prems have "walk fs (cur @ [c]) cs = Inr ((cur @ [c]) @ cs)"
    by (intro Cons.IH) (simp_all add: plain_path_def)
  moreover from Cons.prems(1) have c: "c \<noteq> ''.''" "c \<noteq> ''..''"
    by (simp_all add: plain_path_def plain_name_def)
  moreover have "CHR 0x00 \<notin> set (concat (c # cs))"
    by (rule plain_path_no_null [OF Cons.prems(1)])
  ultimately show ?case using es by simp
qed

lemma os_path_isdir_plain: "plain_path p \<Longrightarrow> os_path_isdir fs p = isdir fs p"
  using walk_plain [of p fs "[]"] walk_plain_isdir [of p fs "[]"]
  by (auto simp: os_path_isdir_def split: sum.splits)

lemma os_mkdir_keeps: "isdir fs q \<Longrightarrow> isdir (snd (os_mkdir fs p)) q"
proof -
  assume q: "isdir fs q"
  then obtain ds where ds: "lookup fs q = Some (Dir ds)"
    by (auto simp: isdir_def split: option.splits node.splits)
  show ?thesis
    using q makedirs_keeps_dir [OF _ ds]
    by (fastforce simp: os_mkdir_def isdir_def split: sum.splits option.splits)
qed

lemma os_makedirs_keeps: "isdir fs q \<Longrightarrow> isdir (snd (os_makedirs fs p)) q"
proof (induction fs p rule: os_makedirs.induct)
  case (1 fs name)
  show ?case
  proof (cases "name \<noteq> [] \<and> \<not> os_path_exists fs (butlast name)")
    case False
    then show ?thesis
      using "1.prems" os_mkdir_keeps [of fs q name]
      by (auto simp: os_makedirs.simps [of fs name])
  next
    case True
    obtain x fs1 where rec: "os_makedirs fs (butlast name) = (x, fs1)"
      by (cases "os_makedirs fs (butlast name)") auto
    from "1.IH" True "1.prems" rec have k1: "isdir fs1 q" by simp
    from k1 have k2: "isdir (snd (os_mkdir fs1 name)) q" by (rule os_mkdir_keeps)
    from True rec k1 k2 show ?thesis
      by (auto simp: os_makedirs.simps [of fs name] split: sum.splits)
  qed
qed

lemma os_mkdir_plain:
  assumes "plain_path p" and "os_mkdir fs p = (Inr (), fs')"
  shows "isdir fs' p"
proof -
  from assms(2) obtain q where w: "walk fs [] p = Inr q" and m: "makedirs fs q = Inr fs'"
    by (auto simp: os_mkdir_def split: sum.splits if_splits option.splits)
  from walk_plain [OF assms(1) w] have "q = p" by simp
  with makedirs_lookup [OF m] show ?thesis by (auto simp: isdir_def)
qed

lemma os_makedirs_plain:
  assumes "plain_path p" and "os_makedirs fs p = (Inr (), fs')"
  shows "isdir fs' p"
proof (cases "p = []")
  case True
  with assms(2) show ?thesis
    by (simp add: os_makedirs.simps [of fs "[]"] os_mkdir_def)
next
  case False
  with assms(1) have "last p \<noteq> ''.''"
    by (metis last_in_set list_all_iff plain_name_def plain_path_def)
  with assms(2) False obtain fs1 where "os_mkdir fs1 p = (Inr (), fs')"
    by (auto simp: os_makedirs.simps [of fs p] split: if_splits sum.splits prod.splits)
  with assms(1) show ?thesis by (rule os_mkdir_plain)
qed

lemma ensure_dir_isdir:
  "plain_path p \<Longrightarrow> ensure_dir fs p = (Inr (), fs') \<Longrightarrow> isdir fs' p"
  using os_makedirs_plain [of p fs fs']
  by (auto simp: ensure_dir_def os_path_isdir_plain split: if_splits)

lemma ensure_dir_keeps: "ensure_dir fs p = (x, fs') \<Longrightarrow> isdir fs q \<Longrightarrow> isdir fs' q"
  using os_makedirs_keeps [of fs q p]
  by (auto simp: ensure_dir_def split: if_splits)

lemma remove_if_dir_plain:
  assumes "plain_path p" and "p \<noteq> []"
  shows "\<exists>fs'. remove_if_dir fs p = (Inr (), fs') \<and> \<not> isdir fs' p
           \<and> (if isdir fs p then rmtree fs p = Inr fs' else fs' = fs)"
proof (cases "isdir fs p")
  case False
  with assms show ?thesis by (simp add: remove_if_dir_def os_path_isdir_plain)
next
  case True
  then obtain ds where ds: "lookup fs p = Some (Dir ds)"
    by (auto simp: isdir_def split: option.splits node.splits)
  from rmtree_succeeds [OF ds assms(2)] obtain fs' where rm: "rmtree fs p = Inr fs'" by blast
  from rmtree_lookup [OF rm] have gone: "\<not> isdir fs' p" by (simp add: isdir_def)
  from assms have "last p \<noteq> ''.''" and "last p \<noteq> ''..''"
    by (metis last_in_set list_all_iff plain_name_def plain_path_def)+
  with True ds rm assms walk_plain_isdir [OF assms(1), of fs "[]"]
  have "remove_if_dir fs p = (Inr (), fs')"
    by (simp add: remove_if_dir_def os_path_isdir_plain shutil_rmtree_def)
  with gone rm True show ?thesis by simp
qed

subsection \<open>The orchestrator on plain names\<close>

lemma install_paths_plain:
  assumes "plain_path r"
  shows "os_path_join r LOG_DIR = r @ [LOG_DIR]"
    and "plain_path (r @ [LOG_DIR])"
    and "plain_name profile \<Longrightarrow>
           os_path_join (os_path_join r SOURCE_DIR) profile = r @ [SOURCE_DIR, profile]"
    and "plain_name profile \<Longrightarrow> plain_path (r @ [SOURCE_DIR, profile])"
    and "plain_name k \<Longrightarrow> os_path_join (os_path_join r PACKAGES_DIR) k = r @ [PACKAGES_DIR, k]"
    and "plain_name k \<Longrightarrow> plain_path (r @ [PACKAGES_DIR, k])"
  using assms by (simp_all add: os_path_join_plain plain_constants plain_path_def)

lemma install_package_success_isdir:
  assumes i: "install_package ext packages r profile version use_meson use_dist fs = (Inr (), fs')"
    and k: "externals_keep_dir ext (r @ [PACKAGES_DIR, profile @ ''@'' @ version])"
    and r: "plain_path r"
    and p: "separator_free profile" and v: "separator_free version"
  shows "isdir fs' (r @ [PACKAGES_DIR, profile @ ''@'' @ version])"
proof -
  let ?key = "profile @ ''@'' @ version"
  let ?dst = "r @ [PACKAGES_DIR, ?key]"
  let ?src = "os_path_join (os_path_join r SOURCE_DIR) profile"
  let ?logfile = "os_path_join (os_path_join r LOG_DIR)
                    (profile @ ''_'' @ version @ ''_'' @ timestamp ext @ ''_build.txt'')"
  have key: "plain_name ?key" by (rule plain_key [OF p v])
  have dst: "os_path_join (os_path_join r PACKAGES_DIR) ?key = ?dst"
    by (rule install_paths_plain(5) [OF r key])
  have pd: "plain_path ?dst" by (rule install_paths_plain(6) [OF r key])
  from i dst obtain fs1 fs2 fs3 where e1: "ensure_dir fs (os_path_join r LOG_DIR) = (Inr (), fs1)"
    and e2: "ensure_dir fs1 ?src = (Inr (), fs2)"
    and e3: "ensure_dir fs2 ?dst = (Inr (), fs3)"
    by (auto simp: install_package_def Let_def split: sum.splits prod.splits)
  have d3: "isdir fs3 ?dst" by (rule ensure_dir_isdir [OF pd e3])
  from i e1 e2 e3 dst have av: "\<not> if_package_not_available packages profile version"
    by (auto simp: install_package_def Let_def split: sum.splits prod.splits)
  show ?thesis
  proof (cases use_dist)
    case True
    obtain res fs4 where s: "install_from_dist ext packages r profile version fs3 = (res, fs4)"
      by (cases "install_from_dist ext packages r profile version fs3") auto
    have d4: "isdir fs4 ?dst" by (rule install_from_dist_keeps [OF k d3 s])
    from i e1 e2 e3 av True s dst have "fs' = fs4"
      by (auto simp: install_package_def Let_def split: sum.splits bool.splits prod.splits)
    with d4 show ?thesis by simp
  next
    case False
    obtain res fs4 where s: "build_from_source ext packages r profile version ?src ?dst ?logfile
        use_meson fs3 = (res, fs4)"
      by (cases "build_from_source ext packages r profile version ?src ?dst ?logfile
        use_meson fs3") auto
    have d4: "isdir fs4 ?dst" by (rule build_from_source_keeps [OF k d3 s])
    from i e1 e2 e3 av False s dst have "fs' = fs4"
      by (auto simp: install_package_def Let_def split: sum.splits bool.splits prod.splits)
    with d4 show ?thesis by simp
  qed
qed

lemma install_rollback_dist:
  assumes r: "plain_path r" and p: "plain_name profile" and v: "separator_free version"
    and e1: "ensure_dir fs (r @ [LOG_DIR]) = (Inr (), fs1)"
    and e2: "ensure_dir fs1 (r @ [SOURCE_DIR, profile]) = (Inr (), fs2)"
    and e3: "ensure_dir fs2 (r @ [PACKAGES_DIR, profile @ ''@'' @ version]) = (Inr (), fs3)"
    and av: "\<not> if_package_not_available packages profile version"
    and s: "install_from_dist ext packages r profile version fs3 = (Inr False, fs4)"
  shows "\<exists>fs5. install_package ext packages r profile version use_meson True fs =
            (Inl (PackageManagerException
                    (''[x] Failed to install '' @ profile @ ''@'' @ version @ ''.'')), fs5)
          \<and> \<not> isdir fs5 (r @ [PACKAGES_DIR, profile @ ''@'' @ version])"
proof -
  let ?key = "profile @ ''@'' @ version"
  have key: "plain_name ?key"
    by (rule plain_key [OF plain_name_separator_free [OF p] v])
  note paths = install_paths_plain(1) [OF r] install_paths_plain(3) [OF r p]
    install_paths_plain(5) [OF r key]
  obtain fs5 where "remove_if_dir fs4 (r @ [PACKAGES_DIR, ?key]) = (Inr (), fs5)"
    and "\<not> isdir fs5 (r @ [PACKAGES_DIR, ?key])"
    using remove_if_dir_plain [OF install_paths_plain(6) [OF r key], of fs4] by auto
  with e1 e2 e3 av s paths show ?thesis by (simp add: install_package_def Let_def)
qed

lemma install_rollback_source:
  assumes r: "plain_path r" and p: "plain_name profile" and v: "separator_free version"
    and e1: "ensure_dir fs (r @ [LOG_DIR]) = (Inr (), fs1)"
    and e2: "ensure_dir fs1 (r @ [SOURCE_DIR, profile]) = (Inr (), fs2)"
    and e3: "ensure_dir fs2 (r @ [PACKAGES_DIR, profile @ ''@'' @ version]) = (Inr (), fs3)"
    and av: "\<not> if_package_not_available packages profile version"
    and s: "build_from_source ext packages r profile version (r @ [SOURCE_DIR, profile])
           (r @ [PACKAGES_DIR, profile @ ''@'' @ version])
           (os_path_join (r @ [LOG_DIR])
              (profile @ ''_'' @ version @ ''_'' @ timestamp ext @ ''_build.txt''))
           use_meson fs3 = (Inr False, fs4)"
  shows "\<exists>fs5. install_package ext packages r profile version use_meson False fs =
            (Inl (PackageManagerException
                    (''[x] Failed to build '' @ profile @ ''@'' @ version @ ''. '' @ ''Check ''
                     @ path_str (os_path_join (r @ [LOG_DIR])
                          (profile @ ''_'' @ version @ ''_'' @ timestamp ext @ ''_build.txt''))
                     @ '' for more information.'')), fs5)
          \<and> \<not> isdir fs5 (r @ [PACKAGES_DIR, profile @ ''@'' @ version])
          \<and> (\<forall>name. lookup fs5 (r @ [LOG_DIR, name]) = lookup fs4 (r @ [LOG_DIR, name]))"
proof -
  let ?key = "profile @ ''@'' @ version"
  let ?dst = "r @ [PACKAGES_DIR, ?key]"
  have key: "plain_name ?key"
    by (rule plain_key [OF plain_name_separator_free [OF p] v])
  note paths = install_paths_plain(1) [OF r] install_paths_plain(3) [OF r p]
    install_paths_plain(5) [OF r key]
  obtain fs5 where rm: "remove_if_dir fs4 ?dst = (Inr (), fs5)" and gone: "\<not> isdir fs5 ?dst"
    and how: "if isdir fs4 ?dst then rmtree fs4 ?dst = Inr fs5 else fs5 = fs4"
    using remove_if_dir_plain [OF install_paths_plain(6) [OF r key], of fs4] by auto
  have keep: "\<forall>name. lookup fs5 (r @ [LOG_DIR, name]) = lookup fs4 (r @ [LOG_DIR, name])"
  proof (cases "isdir fs4 ?dst")
    case False
    with how show ?thesis by simp
  next
    case True
    with how have "rmtree fs4 (r @ PACKAGES_DIR # [?key]) = Inr fs5" by simp
    from rmtree_sibling [OF this, of LOG_DIR] show ?thesis
      by (simp add: LOG_DIR_def PACKAGES_DIR_def)
  qed
  from e1 e2 e3 av s rm paths have "install_package ext packages r profile version use_meson False fs =
            (Inl (PackageManagerException
                    (''[x] Failed to build '' @ profile @ ''@'' @ version @ ''. '' @ ''Check ''
                     @ path_str (os_path_join (r @ [LOG_DIR])
                          (profile @ ''_'' @ version @ ''_'' @ timestamp ext @ ''_build.txt''))
                     @ '' for more information.'')), fs5)"
    by (simp add: install_package_def Let_def)
  with gone keep show ?thesis by blast
qed

lemma install_package_splits_at_separators:
  "fst (install_package (quiet_externals (Some ''deb_x64'')) example_catalog example_root
          ''r2/x'' ''1'' False False example_fs)
     = Inl (PackageManagerException (not_available_msg ''r2/x'' ''1''))
   \<and> list_installed_packages example_root
        (snd (install_package (quiet_externals (Some ''deb_x64'')) example_catalog example_root
                ''r2/x'' ''1'' False False example_fs))
     = Inr [''radare2@5.8.8'', ''r2'']"
  by code_simp

subsection \<open>Order of the catalog\<close>

lemma scan_assets_keys:
  "scan_assets tag names acc = Inr out \<Longrightarrow>
   map fst out = first_seen (map fst acc) (asset_platforms tag names)"
proof (induction names arbitrary: acc)
  case Nil
  then show ?case by simp
next
  case (Cons name rest)
  show ?case
  proof (cases "classify tag name")
    case (Inl e)
    with Cons.prems show ?thesis by simp
  next
    case (Inr r)
    show ?thesis
    proof (cases r)
      case None
      with Inr Cons.prems have "scan_assets tag rest acc = Inr out" by simp
      from Cons.IH [OF this] Inr None show ?thesis by simp
    next
      case (Some platform)
      with Inr Cons.prems have "scan_assets tag rest (AList.update platform name acc) = Inr out"
        by simp
      from Cons.IH [OF this] Inr Some show ?thesis by (simp add: update_keys)
    qed
  qed
qed

lemma scan_releases_keys:
  "scan_releases rs acc = Inr out \<Longrightarrow>
   map (\<lambda>v. map fst (version_packages v)) out =
     map (\<lambda>v. map fst (version_packages v)) acc
     @ map (\<lambda>rel. first_seen [] (asset_platforms (tag_name rel) (assets rel))) rs"
proof (induction rs arbitrary: acc)
  case Nil
  then show ?case by simp
next
  case (Cons rel rest)
  from Cons.prems obtain pkgs where a: "scan_assets (tag_name rel) (assets rel) [] = Inr pkgs"
    and b: "scan_releases rest (acc @ [\<lparr>version_id = tag_name rel, version_packages = pkgs\<rparr>])
              = Inr out"
    by (auto split: sum.splits)
  from scan_assets_keys [OF a] Cons.IH [OF b] show ?case by simp
qed

lemma build_profiles_order:
  assumes "build_profiles rels = Inr profiles"
  shows "\<exists>pk. map fst profiles = [''r2frida'', ''r2dec'', ''r2yara'', ''r2ghidra'', ''r0'', ''radare2'']
      \<and> map_of profiles ''radare2'' = Some pk
      \<and> map version_id (package_versions pk) = rev (map tag_name rels) @ [''git'']
      \<and> map (\<lambda>v. map fst (version_packages v)) (package_versions pk) =
          rev (map (\<lambda>rel. first_seen [] (asset_platforms (tag_name rel) (assets rel))) rels)
          @ [[]]"
proof -
  from assms obtain vs where vs: "scan_releases rels [git_version] = Inr vs"
    and names: "map fst profiles =
        [''r2frida'', ''r2dec'', ''r2yara'', ''r2ghidra'', ''r0'', ''radare2'']"
    and pk: "map_of profiles ''radare2'' =
      Some \<lparr>package_source = ''https://github.com/radareorg/radare2'',
            package_versions = rev vs\<rparr>"
    by (auto simp: build_profiles_def split: sum.splits)
  from scan_releases_ids [OF vs] have "map version_id vs = ''git'' # map tag_name rels"
    by (simp add: git_version_def)
  then have ids: "map version_id (rev vs) = rev (map tag_name rels) @ [''git'']"
    by (simp add: rev_map [symmetric])
  from scan_releases_keys [OF vs] have
    "map (\<lambda>v. map fst (version_packages v)) vs =
       [] # map (\<lambda>rel. first_seen [] (asset_platforms (tag_name rel) (assets rel))) rels"
    by (simp add: git_version_def)
  then have keys: "map (\<lambda>v. map fst (version_packages v)) (rev vs) =
       rev (map (\<lambda>rel. first_seen [] (asset_platforms (tag_name rel) (assets rel))) rels) @ [[]]"
    by (simp add: rev_map [symmetric])
  from names pk ids keys show ?thesis by simp
qed

section \<open>The claims\<close>

text \<open>
  Claim C1, as written, fails. \<^verbatim>\<open>install_package\<close> creates the log directory, the
  source working directory and the destination directory before it looks the request up
  in the catalog. A request for the unknown version \<open>1.0\<close> therefore leaves a new
  \<^verbatim>\<open>log\<close> directory behind, and a request for the unknown version \<open>5.8.8\<close>, whose
  directory exists from an earlier install, removes that directory.
\<close>

theorem install_unknown_package_writes_counterexample:
  "if_package_not_available example_catalog ''radare2'' ''1.0''
   \<and> fst (install_package (quiet_externals (Some ''deb_x64'')) example_catalog example_root
            ''radare2'' ''1.0'' False False example_fs)
       = Inl (PackageManagerException (not_available_msg ''radare2'' ''1.0''))
   \<and> \<not> isdir example_fs (example_root @ [LOG_DIR])
   \<and> isdir (snd (install_package (quiet_externals (Some ''deb_x64'')) example_catalog
                   example_root ''radare2'' ''1.0'' False False example_fs))
        (example_root @ [LOG_DIR])
   \<and> snd (install_package (quiet_externals (Some ''deb_x64'')) example_catalog
             example_root ''radare2'' ''1.0'' False False example_fs) \<noteq> example_fs
   \<and> if_package_not_available example_catalog ''radare2'' ''5.8.8''
   \<and> isdir example_fs (example_root @ [PACKAGES_DIR, ''radare2@5.8.8''])
   \<and> \<not> isdir (snd (install_package (quiet_externals (Some ''deb_x64'')) example_catalog
                     example_root ''radare2'' ''5.8.8'' False False example_fs))
          (example_root @ [PACKAGES_DIR, ''radare2@5.8.8''])"
  by code_simp

text \<open>
  Claim C1, amended: for a request whose (package, version) pair is absent from the
  catalog, whose package name is a plain name (not empty, without \<open>/\<close> or a null
  character, neither \<open>.\<close> nor \<open>..\<close>) and whose version has no \<open>/\<close> and no null
  character, under a state root of plain names, \<^verbatim>\<open>install_package\<close> first creates,
  where missing, the log directory, the source working directory and the destination
  directory. When these three steps succeed, it removes the destination directory
  recursively and fails with the ``package not available'' \<^verbatim>\<open>PackageManagerException\<close>;
  afterwards nothing exists at the destination key, and the log and source directories
  exist. (A name with a separator reaches other directories: see
  \<open>install_package_splits_at_separators\<close>.)
\<close>

theorem install_unknown_package:
  assumes na: "if_package_not_available packages profile version"
    and r: "plain_path r" and p: "plain_name profile" and v: "separator_free version"
    and e1: "ensure_dir fs (r @ [LOG_DIR]) = (Inr (), fs1)"
    and e2: "ensure_dir fs1 (r @ [SOURCE_DIR, profile]) = (Inr (), fs2)"
    and e3: "ensure_dir fs2 (r @ [PACKAGES_DIR, profile @ ''@'' @ version]) = (Inr (), fs3)"
  shows "\<exists>fs4. install_package ext packages r profile version use_meson use_dist fs =
             (Inl (PackageManagerException (not_available_msg profile version)), fs4)
           \<and> rmtree fs3 (r @ [PACKAGES_DIR, profile @ ''@'' @ version]) = Inr fs4
           \<and> lookup fs4 (r @ [PACKAGES_DIR, profile @ ''@'' @ version]) = None
           \<and> isdir fs4 (r @ [LOG_DIR])
           \<and> isdir fs4 (r @ [SOURCE_DIR, profile])"
proof -
  let ?key = "profile @ ''@'' @ version"
  let ?dst = "r @ [PACKAGES_DIR, ?key]"
  have key: "plain_name ?key"
    by (rule plain_key [OF plain_name_separator_free [OF p] v])
  note paths = install_paths_plain(1) [OF r] install_paths_plain(3) [OF r p]
    install_paths_plain(5) [OF r key]
  have pd: "plain_path ?dst" by (rule install_paths_plain(6) [OF r key])
  have d3: "isdir fs3 ?dst" by (rule ensure_dir_isdir [OF pd e3])
  have l1: "isdir fs1 (r @ [LOG_DIR])"
    by (rule ensure_dir_isdir [OF install_paths_plain(2) [OF r] e1])
  have l3: "isdir fs3 (r @ [LOG_DIR])"
    by (rule ensure_dir_keeps [OF e3 ensure_dir_keeps [OF e2 l1]])
  have s2: "isdir fs2 (r @ [SOURCE_DIR, profile])"
    by (rule ensure_dir_isdir [OF install_paths_plain(4) [OF r p] e2])
  have s3: "isdir fs3 (r @ [SOURCE_DIR, profile])"
    by (rule ensure_dir_keeps [OF e3 s2])
  from remove_if_dir_plain [OF pd, of fs3] d3 obtain fs4 where
    rid: "remove_if_dir fs3 ?dst = (Inr (), fs4)" and rm: "rmtree fs3 ?dst = Inr fs4"
    by auto
  have gone: "lookup fs4 ?dst = None" by (rule rmtree_lookup [OF rm])
  from rm have rm': "rmtree fs3 (r @ PACKAGES_DIR # [?key]) = Inr fs4" by simp
  have "lookup fs4 (r @ LOG_DIR # []) = lookup fs3 (r @ LOG_DIR # [])"
    by (rule rmtree_sibling [OF rm']) (simp add: LOG_DIR_def PACKAGES_DIR_def)
  with l3 have l4: "isdir fs4 (r @ [LOG_DIR])" by (simp add: isdir_def)
  have "lookup fs4 (r @ SOURCE_DIR # [profile]) = lookup fs3 (r @ SOURCE_DIR # [profile])"
    by (rule rmtree_sibling [OF rm']) (simp add: SOURCE_DIR_def PACKAGES_DIR_def)
  with s3 have s4: "isdir fs4 (r @ [SOURCE_DIR, profile])" by (simp add: isdir_def)
  have "install_package ext packages r profile version use_meson use_dist fs =
          (Inl (PackageManagerException (not_available_msg profile version)), fs4)"
    using na e1 e2 e3 rid paths by (simp add: install_package_def Let_def)
  with rm gone l4 s4 show ?thesis by blast
qed

theorem install_unknown_package_witness:
  "if_package_not_available example_catalog ''radare2'' ''1.0''
   \<and> plain_path example_root \<and> plain_name ''radare2'' \<and> separator_free ''1.0''
   \<and> fst (install_package (quiet_externals (Some ''deb_x64'')) example_catalog example_root
            ''radare2'' ''1.0'' False False example_fs)
       = Inl (PackageManagerException (not_available_msg ''radare2'' ''1.0''))
   \<and> lookup (snd (install_package (quiet_externals (Some ''deb_x64'')) example_catalog
                    example_root ''radare2'' ''1.0'' False False example_fs))
        (example_root @ [PACKAGES_DIR, ''radare2'' @ ''@'' @ ''1.0'']) = None
   \<and> isdir (snd (install_package (quiet_externals (Some ''deb_x64'')) example_catalog
                   example_root ''radare2'' ''1.0'' False False example_fs))
        (example_root @ [LOG_DIR])
   \<and> isdir (snd (install_package (quiet_externals (Some ''deb_x64'')) example_catalog
                   example_root ''radare2'' ''1.0'' False False example_fs))
        (example_root @ [SOURCE_DIR, ''radare2''])"
proof -
  let ?e1 = "ensure_dir example_fs (example_root @ [LOG_DIR])"
  let ?e2 = "ensure_dir (snd ?e1) (example_root @ [SOURCE_DIR, ''radare2''])"
  let ?e3 = "ensure_dir (snd ?e2) (example_root @ [PACKAGES_DIR, ''radare2'' @ ''@'' @ ''1.0''])"
  have na: "if_package_not_available example_catalog ''radare2'' ''1.0''"
    by code_simp
  have r: "plain_path example_root" by code_simp
  have p: "plain_name ''radare2''" by code_simp
  have v: "separator_free ''1.0''" by code_simp
  have "fst ?e1 = Inr ()" by code_simp
  then have e1: "?e1 = (Inr (), snd ?e1)" by (simp add: prod_eq_iff)
  have "fst ?e2 = Inr ()" by code_simp
  then have e2: "?e2 = (Inr (), snd ?e2)" by (simp add: prod_eq_iff)
  have "fst ?e3 = Inr ()" by code_simp
  then have e3: "?e3 = (Inr (), snd ?e3)" by (simp add: prod_eq_iff)
  from install_unknown_package [OF na r p v e1 e2 e3,
      of "quiet_externals (Some ''deb_x64'')" False False]
  obtain fs4 where "install_package (quiet_externals (Some ''deb_x64'')) example_catalog
        example_root ''radare2'' ''1.0'' False False example_fs =
          (Inl (PackageManagerException (not_available_msg ''radare2'' ''1.0'')), fs4)"
    and "lookup fs4 (example_root @ [PACKAGES_DIR, ''radare2'' @ ''@'' @ ''1.0'']) = None"
    and "isdir fs4 (example_root @ [LOG_DIR])"
    and "isdir fs4 (example_root @ [SOURCE_DIR, ''radare2''])"
    by blast
  with na r p v show ?thesis by simp
qed

text \<open>
  Claim C2 does not hold on the code. The roll-back of the destination directory is
  done only when the strategy returns \<^verbatim>\<open>False\<close> (lemmas \<open>install_rollback_dist\<close> and
  \<open>install_rollback_source\<close>); a strategy that fails by raising leaves the directory in
  place. Here the download of a binary package fails with \<^verbatim>\<open>URLError\<close>:
  \<^verbatim>\<open>_install_from_dist\<close> raises, \<^verbatim>\<open>install_package\<close> lets the exception through, the
  directory \<^verbatim>\<open>versions/radare2@5.9.0\<close>, absent before the request, exists after it,
  and the registry lists the key.
\<close>

theorem install_download_failure_keeps_directory:
  "\<not> isdir example_fs (example_root @ [PACKAGES_DIR, ''radare2@5.9.0''])
   \<and> fst (install_package (offline_externals (Some ''deb_x64'')) example_catalog example_root
            ''radare2'' ''5.9.0'' False True example_fs)
       = Inl (PackageManagerException ''Failed to download radare2 package. Error: timed out'')
   \<and> isdir (snd (install_package (offline_externals (Some ''deb_x64'')) example_catalog
                   example_root ''radare2'' ''5.9.0'' False True example_fs))
        (example_root @ [PACKAGES_DIR, ''radare2@5.9.0''])
   \<and> list_installed_packages example_root
        (snd (install_package (offline_externals (Some ''deb_x64'')) example_catalog
                example_root ''radare2'' ''5.9.0'' False True example_fs))
       = Inr [''radare2@5.8.8'', ''radare2@5.9.0'']"
  by code_simp

text \<open>
  Claim C3, as written (the synthetic version \<open>git\<close> first, then the releases most
  recent first), fails: \<^verbatim>\<open>radare2_versions[::-1]\<close> reverses the list
  that was built with \<open>git\<close> in front, so for releases delivered newest first the
  catalog lists them oldest first and \<open>git\<close> last.
\<close>

theorem radare2_versions_git_first_counterexample:
  "radare2_version_ids
     [\<lparr>tag_name = ''5.9.0'', assets = [''radare2-5.9.0-w64.zip'']\<rparr>,
      \<lparr>tag_name = ''5.8.8'', assets = []\<rparr>]
   = Inr [''5.8.8'', ''5.9.0'', ''git'']
   \<and> [''5.8.8'', ''5.9.0'', ''git''] \<noteq> [''git'', ''5.9.0'', ''5.8.8'']"
  by code_simp

text \<open>
  Claim C3, amended: whenever the rebuild of the catalog succeeds, the version list of
  the primary package is the release tags in the reverse of the delivered order (oldest
  first for a newest-first input), followed by the synthetic version \<open>git\<close> as its last
  element.
\<close>

theorem radare2_versions_order:
  assumes "build_profiles rels = Inr cat"
  shows "radare2_version_ids rels = Inr (rev (map tag_name rels) @ [''git''])"
proof -
  from assms obtain vs where vs: "scan_releases rels [git_version] = Inr vs"
    and cat: "map_of cat ''radare2'' =
      Some \<lparr>package_source = ''https://github.com/radareorg/radare2'',
            package_versions = rev vs\<rparr>"
    by (auto simp: build_profiles_def split: sum.splits)
  from scan_releases_ids [OF vs] have "map version_id vs = ''git'' # map tag_name rels"
    by (simp add: git_version_def)
  then have "map version_id (rev vs) = rev (map tag_name rels) @ [''git'']"
    by (simp add: rev_map [symmetric])
  with cat assms show ?thesis by (simp add: radare2_version_ids_def)
qed

theorem radare2_versions_order_witness:
  "(\<exists>cat. build_profiles
       [\<lparr>tag_name = ''5.9.0'', assets = [''radare2-5.9.0-w64.zip'']\<rparr>,
        \<lparr>tag_name = ''5.8.8'', assets = []\<rparr>] = Inr cat)
   \<and> radare2_version_ids
       [\<lparr>tag_name = ''5.9.0'', assets = [''radare2-5.9.0-w64.zip'']\<rparr>,
        \<lparr>tag_name = ''5.8.8'', assets = []\<rparr>]
     = Inr [''5.8.8'', ''5.9.0'', ''git'']"
proof -
  let ?rels = "[\<lparr>tag_name = ''5.9.0'', assets = [''radare2-5.9.0-w64.zip'']\<rparr>,
                \<lparr>tag_name = ''5.8.8'', assets = []\<rparr>]"
  have "\<not> isl (build_profiles ?rels)"
    by code_simp
  then obtain cat where cat: "build_profiles ?rels = Inr cat"
    by (cases "build_profiles ?rels") auto
  from radare2_versions_order [OF cat] cat show ?thesis by simp
qed

text \<open>
  Claim C4 does not hold on the code. The version \<open>git\<close> is in the catalog and has no
  artifact for the platform \<open>deb_x64\<close>; \<^verbatim>\<open>_get_pkgname\<close> answers \<^verbatim>\<open>None\<close>, and
  \<^verbatim>\<open>_install_from_dist\<close> joins it into a path: the install ends with a \<^verbatim>\<open>TypeError\<close>,
  not with a \<^verbatim>\<open>PackageManagerException\<close>.
\<close>

theorem install_from_dist_without_artifact:
  "\<not> if_package_not_available example_catalog ''radare2'' ''git''
   \<and> get_pkgname example_catalog ''radare2'' ''git'' (Some ''deb_x64'') = None
   \<and> fst (install_package (quiet_externals (Some ''deb_x64'')) example_catalog example_root
            ''radare2'' ''git'' False True example_fs) = Inl TypeError"
  by code_simp

text \<open>
  Claim C5 does not hold on the code for a release tagged with the project name. The
  extension is tested last, after the two \<^verbatim>\<open>remove\<close> calls: for the tag \<open>radare2\<close> and
  the asset \<^verbatim>\<open>radare2.txt\<close> the only token is removed as the project name, and removing
  the tag raises \<^verbatim>\<open>ValueError\<close>, although the extension \<^verbatim>\<open>.txt\<close> is not a recognised
  one. For every other tag the three rejections hold (lemmas
  \<open>classify_unknown_extension\<close>, \<open>classify_wrong_first_token\<close>, \<open>classify_tag_missing\<close>).
\<close>

theorem classify_project_tag_raises:
  "splitext ''radare2.txt'' = (''radare2'', ''.txt'')
   \<and> map_of VERSION_FILTERS ''.txt'' = None
   \<and> classify ''radare2'' ''radare2.txt'' = Inl ValueError"
  by code_simp

text \<open>
  Claim C6: when two assets of one release classify to the same platform, the version's
  mapping for that platform holds the one processed later. Stated for any position of
  the two assets in the asset list: \<open>b\<close> comes after \<open>a\<close>, and no asset after \<open>b\<close>
  classifies to that platform.
\<close>

theorem later_asset_wins:
  assumes "scan_assets tag (pre @ a # mid @ b # post) [] = Inr pkgs"
    and "classify tag a = Inr (Some p)"
    and "classify tag b = Inr (Some p)"
    and "\<forall>c \<in> set post. classify tag c \<noteq> Inr (Some p)"
  shows "map_of pkgs p = Some b"
proof -
  define P where "P = (\<lambda>n. classify tag n = Inr (Some p))"
  have "filter P post = []" using assms(4) by (simp add: filter_empty_conv P_def)
  moreover have "P b" using assms(3) by (simp add: P_def)
  ultimately have "filter P (pre @ a # mid @ b # post) = filter P (pre @ a # mid) @ [b]"
    by simp
  then obtain ys where ys: "filter P (pre @ a # mid @ b # post) = ys @ [b]"
    by blast
  have "map_of pkgs p =
     (case filter P (pre @ a # mid @ b # post) of
        [] \<Rightarrow> map_of [] p
      | x # xs \<Rightarrow> Some (last (x # xs)))"
    unfolding P_def by (rule scan_assets_map_of [OF assms(1)])
  also have "\<dots> = Some b"
    unfolding ys by (cases ys) simp_all
  finally show ?thesis .
qed

theorem later_asset_wins_witness:
  "scan_assets ''5.9.0''
     ([] @ ''radare2-5.9.0-w64.zip'' # [''radare2-5.9.0.tar.xz'']
         @ ''radare2_5.9.0_w64.zip'' # [''radare2_5.9.0_amd64.deb'']) []
     = Inr [(''w64'', ''radare2_5.9.0_w64.zip''), (''deb_x64'', ''radare2_5.9.0_amd64.deb'')]
   \<and> classify ''5.9.0'' ''radare2-5.9.0-w64.zip'' = Inr (Some ''w64'')
   \<and> classify ''5.9.0'' ''radare2_5.9.0_w64.zip'' = Inr (Some ''w64'')
   \<and> classify ''5.9.0'' ''radare2_5.9.0_amd64.deb'' \<noteq> Inr (Some ''w64'')
   \<and> map_of [(''w64'', ''radare2_5.9.0_w64.zip''), (''deb_x64'', ''radare2_5.9.0_amd64.deb'')]
        ''w64'' = Some ''radare2_5.9.0_w64.zip''"
proof -
  have h1: "scan_assets ''5.9.0''
     ([] @ ''radare2-5.9.0-w64.zip'' # [''radare2-5.9.0.tar.xz'']
         @ ''radare2_5.9.0_w64.zip'' # [''radare2_5.9.0_amd64.deb'']) []
     = Inr [(''w64'', ''radare2_5.9.0_w64.zip''), (''deb_x64'', ''radare2_5.9.0_amd64.deb'')]"
    by code_simp
  have h2: "classify ''5.9.0'' ''radare2-5.9.0-w64.zip'' = Inr (Some ''w64'')"
    by code_simp
  have h3: "classify ''5.9.0'' ''radare2_5.9.0_w64.zip'' = Inr (Some ''w64'')"
    by code_simp
  have h4: "classify ''5.9.0'' ''radare2_5.9.0_amd64.deb'' \<noteq> Inr (Some ''w64'')"
    by code_simp
  then have h4': "\<forall>c \<in> set [''radare2_5.9.0_amd64.deb'']. classify ''5.9.0'' c \<noteq> Inr (Some ''w64'')"
    by simp
  from later_asset_wins [OF h1 h2 h3 h4'] h1 h2 h3 h4 show ?thesis by blast
qed

text \<open>
  Claim C7, as written, fails for an uninstall in binary-distribution mode: that branch
  calls the platform's uninstaller (on \<open>w64\<close> it removes \<^verbatim>\<open>bin\<close>; on \<open>deb_x64\<close> it runs
  \<^verbatim>\<open>dpkg\<close>) and never removes the directory under \<^verbatim>\<open>versions\<close>, so the key stays
  listed after a successful uninstall.
\<close>

theorem uninstall_dist_still_listed_counterexample:
  "list_installed_packages example_root example_fs = Inr [''radare2@5.8.8'']
   \<and> fst (uninstall_package (quiet_externals (Some ''w64'')) example_root ''radare2@5.8.8'' True
            example_fs) = Inr ()
   \<and> list_installed_packages example_root
        (snd (uninstall_package (quiet_externals (Some ''w64'')) example_root ''radare2@5.8.8''
                True example_fs)) = Inr [''radare2@5.8.8'']
   \<and> fst (uninstall_package (quiet_externals (Some ''deb_x64'')) example_root ''radare2@5.8.8''
            True example_fs) = Inr ()
   \<and> list_installed_packages example_root
        (snd (uninstall_package (quiet_externals (Some ''deb_x64'')) example_root
                ''radare2@5.8.8'' True example_fs)) = Inr [''radare2@5.8.8'']"
  by code_simp

text \<open>
  Claim C7, amended: for a key \<open>profile@version\<close> whose package name and version have no
  \<open>/\<close> and no null character, under a state root of plain names: after a successful
  install of the key, in either mode and provided the external tools leave the
  destination directory in place, the registry lists the key. After a successful
  uninstall of a key in from-source mode (\<^verbatim>\<open>use_dist\<close> false) the registry no longer
  lists it.
\<close>

theorem install_listed_uninstall_unlisted:
  "(install_package ext packages r profile version use_meson use_dist fs = (Inr (), fs1)
      \<and> externals_keep_dir ext (r @ [PACKAGES_DIR, profile @ ''@'' @ version])
      \<and> plain_path r \<and> separator_free profile \<and> separator_free version
    \<longrightarrow> (\<exists>installed. list_installed_packages r fs1 = Inr installed
            \<and> profile @ ''@'' @ version \<in> set installed))
   \<and> (uninstall_package ext r package_name False fs = (Inr (), fs2)
    \<longrightarrow> (\<exists>installed. list_installed_packages r fs2 = Inr installed
            \<and> package_name \<notin> set installed))"
proof (intro conjI impI)
  assume "install_package ext packages r profile version use_meson use_dist fs = (Inr (), fs1)
      \<and> externals_keep_dir ext (r @ [PACKAGES_DIR, profile @ ''@'' @ version])
      \<and> plain_path r \<and> separator_free profile \<and> separator_free version"
  then have "isdir fs1 (r @ [PACKAGES_DIR, profile @ ''@'' @ version])"
    using install_package_success_isdir by blast
  then show "\<exists>installed. list_installed_packages r fs1 = Inr installed
            \<and> profile @ ''@'' @ version \<in> set installed"
    by (rule isdir_listed)
next
  assume u: "uninstall_package ext r package_name False fs = (Inr (), fs2)"
  have "lookup fs2 (r @ [PACKAGES_DIR, package_name]) = None"
    by (rule rmtree_lookup [OF uninstall_package_source [OF u]])
  then have n: "\<not> isdir fs2 (r @ [PACKAGES_DIR, package_name])"
    by (simp add: isdir_def)
  obtain installed where l: "list_installed_packages r fs2 = Inr installed"
    using list_installed_packages_total by blast
  with n listed_isdir [OF l] show "\<exists>installed. list_installed_packages r fs2 = Inr installed
            \<and> package_name \<notin> set installed"
    by blast
qed

theorem install_listed_uninstall_unlisted_witness:
  "fst (install_package (quiet_externals (Some ''deb_x64'')) example_catalog example_root
          ''radare2'' ''5.9.0'' False True example_fs) = Inr ()
   \<and> externals_keep_dir (quiet_externals (Some ''deb_x64''))
        (example_root @ [PACKAGES_DIR, ''radare2'' @ ''@'' @ ''5.9.0''])
   \<and> plain_path example_root \<and> separator_free ''radare2'' \<and> separator_free ''5.9.0''
   \<and> list_installed_packages example_root
        (snd (install_package (quiet_externals (Some ''deb_x64'')) example_catalog example_root
                ''radare2'' ''5.9.0'' False True example_fs))
       = Inr [''radare2@5.8.8'', ''radare2@5.9.0'']
   \<and> ''radare2'' @ ''@'' @ ''5.9.0'' \<in> set [''radare2@5.8.8'', ''radare2@5.9.0'']
   \<and> fst (uninstall_package (quiet_externals (Some ''deb_x64'')) example_root ''radare2@5.8.8''
            False example_fs) = Inr ()
   \<and> list_installed_packages example_root
        (snd (uninstall_package (quiet_externals (Some ''deb_x64'')) example_root
                ''radare2@5.8.8'' False example_fs)) = Inr []
   \<and> ''radare2@5.8.8'' \<notin> set []"
proof -
  let ?Q = "quiet_externals (Some ''deb_x64'')"
  let ?i = "install_package ?Q example_catalog example_root ''radare2'' ''5.9.0'' False True
              example_fs"
  let ?u = "uninstall_package ?Q example_root ''radare2@5.8.8'' False example_fs"
  have fi: "fst ?i = Inr ()" by code_simp
  have fu: "fst ?u = Inr ()" by code_simp
  have li: "list_installed_packages example_root (snd ?i) = Inr [''radare2@5.8.8'', ''radare2@5.9.0'']"
    by code_simp
  have lu: "list_installed_packages example_root (snd ?u) = Inr []"
    by code_simp
  have k: "externals_keep_dir ?Q (example_root @ [PACKAGES_DIR, ''radare2'' @ ''@'' @ ''5.9.0''])"
    by (simp add: externals_keep_dir_def keeps_dir_def quiet_externals_def)
  have r: "plain_path example_root" by code_simp
  have pv: "separator_free ''radare2''" "separator_free ''5.9.0''" by code_simp+
  from fi have hi: "?i = (Inr (), snd ?i)" by (simp add: prod_eq_iff)
  from fu have hu: "?u = (Inr (), snd ?u)" by (simp add: prod_eq_iff)
  from install_listed_uninstall_unlisted
         [of ?Q example_catalog example_root "''radare2''" "''5.9.0''" False True example_fs
             "snd ?i" "''radare2@5.8.8''" "snd ?u"]
       hi hu k r pv li lu
  have "''radare2'' @ ''@'' @ ''5.9.0'' \<in> set [''radare2@5.8.8'', ''radare2@5.9.0'']
        \<and> ''radare2@5.8.8'' \<notin> set []"
    by auto
  with fi fu li lu k r pv show ?thesis by blast
qed

text \<open>
  Claim C8: uninstalling a key that the registry does not list fails with the
  ``package not installed'' error (\<^verbatim>\<open>PackageManagerException\<close>, ``Unable to find installed
  package'') and leaves the filesystem exactly as it was, in either mode.
\<close>

theorem uninstall_not_installed:
  assumes "list_installed_packages r fs = Inr installed"
    and "package_name \<notin> set installed"
  shows "uninstall_package ext r package_name use_dist fs =
           (Inl (PackageManagerException
                   (''[x] Unable to find installed package '' @ package_name)), fs)"
  using assms by (simp add: uninstall_package_def uninstall_loop_absent)

theorem uninstall_not_installed_witness:
  "list_installed_packages example_root example_fs = Inr [''radare2@5.8.8'']
   \<and> ''radare2@5.9.0'' \<notin> set [''radare2@5.8.8'']
   \<and> uninstall_package (quiet_externals (Some ''deb_x64'')) example_root ''radare2@5.9.0'' True
        example_fs =
       (Inl (PackageManagerException ''[x] Unable to find installed package radare2@5.9.0''),
        example_fs)"
proof -
  have l: "list_installed_packages example_root example_fs = Inr [''radare2@5.8.8'']"
    by code_simp
  have n: "''radare2@5.9.0'' \<notin> set [''radare2@5.8.8'']"
    by simp
  from uninstall_not_installed [OF l n, of "quiet_externals (Some ''deb_x64'')" True] l n
  show ?thesis by simp
qed

text \<open>
  Claim C9: two successive rebuilds of the catalog from the same release list leave the
  same bytes in \<^verbatim>\<open>profiles.json\<close>, and the order of what is serialised is fixed by the
  input alone: the file holds \<^verbatim>\<open>json.dump\<close> of the catalog built from the release list,
  whose packages come in the order written in the code, whose primary-package versions
  are the release tags in reverse delivered order followed by \<open>git\<close>, and whose platform
  keys, for each version, come in the order in which the release's assets first
  classify to them.
\<close>

theorem rebuild_deterministic:
  assumes "update_radare2_profiles r (Inr rels) fs = (Inr (), fs1)"
    and "update_radare2_profiles r (Inr rels) fs1 = (Inr (), fs2)"
  shows "\<exists>profiles pk.
      build_profiles rels = Inr profiles
    \<and> lookup fs1 (r @ [''profiles.json'']) = Some (File (json_dump profiles))
    \<and> lookup fs2 (r @ [''profiles.json'']) = Some (File (json_dump profiles))
    \<and> map fst profiles = [''r2frida'', ''r2dec'', ''r2yara'', ''r2ghidra'', ''r0'', ''radare2'']
    \<and> map_of profiles ''radare2'' = Some pk
    \<and> map version_id (package_versions pk) = rev (map tag_name rels) @ [''git'']
    \<and> map (\<lambda>v. map fst (version_packages v)) (package_versions pk) =
        rev (map (\<lambda>rel. first_seen [] (asset_platforms (tag_name rel) (assets rel))) rels)
        @ [[]]"
proof -
  from assms(1) obtain profiles a where p: "build_profiles rels = Inr profiles"
    and w1: "write_file a (r @ [''profiles.json'']) (json_dump profiles) = Inr fs1"
    by (auto simp: update_radare2_profiles_def split: sum.splits if_splits)
  from assms(2) p obtain b where
    w2: "write_file b (r @ [''profiles.json'']) (json_dump profiles) = Inr fs2"
    by (auto simp: update_radare2_profiles_def split: sum.splits if_splits)
  from build_profiles_order [OF p] obtain pk where o:
    "map fst profiles = [''r2frida'', ''r2dec'', ''r2yara'', ''r2ghidra'', ''r0'', ''radare2'']
     \<and> map_of profiles ''radare2'' = Some pk
     \<and> map version_id (package_versions pk) = rev (map tag_name rels) @ [''git'']
     \<and> map (\<lambda>v. map fst (version_packages v)) (package_versions pk) =
        rev (map (\<lambda>rel. first_seen [] (asset_platforms (tag_name rel) (assets rel))) rels)
        @ [[]]" ..
  from p write_file_lookup [OF w1] write_file_lookup [OF w2] o show ?thesis
    by (intro exI [of _ profiles] exI [of _ pk]) simp
qed

theorem rebuild_deterministic_witness:
  "fst (update_radare2_profiles example_root
          (Inr [\<lparr>tag_name = ''5.9.0'',
                 assets = [''radare2_5.9.0_amd64.deb'', ''radare2-5.9.0-w64.zip'',
                           ''radare2-5.9.0_amd64.deb'']\<rparr>]) example_fs)
     = Inr ()
   \<and> fst (update_radare2_profiles example_root
          (Inr [\<lparr>tag_name = ''5.9.0'',
                 assets = [''radare2_5.9.0_amd64.deb'', ''radare2-5.9.0-w64.zip'',
                           ''radare2-5.9.0_amd64.deb'']\<rparr>])
          (snd (update_radare2_profiles example_root
             (Inr [\<lparr>tag_name = ''5.9.0'',
                    assets = [''radare2_5.9.0_amd64.deb'', ''radare2-5.9.0-w64.zip'',
                              ''radare2-5.9.0_amd64.deb'']\<rparr>]) example_fs)))
     = Inr ()
   \<and> isfile (snd (update_radare2_profiles example_root
          (Inr [\<lparr>tag_name = ''5.9.0'',
                 assets = [''radare2_5.9.0_amd64.deb'', ''radare2-5.9.0-w64.zip'',
                           ''radare2-5.9.0_amd64.deb'']\<rparr>]) example_fs))
        (example_root @ [''profiles.json''])
   \<and> lookup (snd (update_radare2_profiles example_root
          (Inr [\<lparr>tag_name = ''5.9.0'',
                 assets = [''radare2_5.9.0_amd64.deb'', ''radare2-5.9.0-w64.zip'',
                           ''radare2-5.9.0_amd64.deb'']\<rparr>]) example_fs))
        (example_root @ [''profiles.json''])
     = lookup (snd (update_radare2_profiles example_root
          (Inr [\<lparr>tag_name = ''5.9.0'',
                 assets = [''radare2_5.9.0_amd64.deb'', ''radare2-5.9.0-w64.zip'',
                           ''radare2-5.9.0_amd64.deb'']\<rparr>])
          (snd (update_radare2_profiles example_root
             (Inr [\<lparr>tag_name = ''5.9.0'',
                    assets = [''radare2_5.9.0_amd64.deb'', ''radare2-5.9.0-w64.zip'',
                              ''radare2-5.9.0_amd64.deb'']\<rparr>]) example_fs))))
        (example_root @ [''profiles.json''])
   \<and> first_seen [] (asset_platforms ''5.9.0''
          [''radare2_5.9.0_amd64.deb'', ''radare2-5.9.0-w64.zip'', ''radare2-5.9.0_amd64.deb''])
     = [''deb_x64'', ''w64'']"
proof -
  let ?rels = "Inr [\<lparr>tag_name = ''5.9.0'',
                 assets = [''radare2_5.9.0_amd64.deb'', ''radare2-5.9.0-w64.zip'',
                           ''radare2-5.9.0_amd64.deb'']\<rparr>]"
  let ?one = "update_radare2_profiles example_root ?rels example_fs"
  let ?two = "update_radare2_profiles example_root ?rels (snd ?one)"
  have f1: "fst ?one = Inr ()"
    by code_simp
  have f2: "fst ?two = Inr ()"
    by code_simp
  have o: "first_seen [] (asset_platforms ''5.9.0''
          [''radare2_5.9.0_amd64.deb'', ''radare2-5.9.0-w64.zip'', ''radare2-5.9.0_amd64.deb''])
     = [''deb_x64'', ''w64'']"
    by code_simp
  from f1 have h1: "?one = (Inr (), snd ?one)"
    by (simp add: prod_eq_iff)
  from f2 have h2: "?two = (Inr (), snd ?two)"
    by (simp add: prod_eq_iff)
  from rebuild_deterministic [OF h1 h2] f1 f2 o show ?thesis
    by (auto simp: isfile_def)
qed

text \<open>
  Claim C10: the registry never raises. When the \<^verbatim>\<open>versions\<close> directory does not exist
  the list is empty, and in every state each listed key is an entry of the
  \<^verbatim>\<open>versions\<close> directory that is itself a directory; an entry that is a plain file is
  never listed.
\<close>

theorem list_installed_packages_safe:
  "\<exists>installed. list_installed_packages r fs = Inr installed
     \<and> (\<not> isdir fs (r @ [PACKAGES_DIR]) \<longrightarrow> installed = [])
     \<and> (\<forall>pkg \<in> set installed.
           isdir fs (r @ [PACKAGES_DIR, pkg])
           \<and> (\<exists>names. listdir fs (r @ [PACKAGES_DIR]) = Inr names \<and> pkg \<in> set names))
     \<and> (\<forall>pkg. isfile fs (r @ [PACKAGES_DIR, pkg]) \<longrightarrow> pkg \<notin> set installed)"
proof -
  obtain installed where inst: "list_installed_packages r fs = Inr installed"
    using list_installed_packages_total by blast
  have a: "\<not> isdir fs (r @ [PACKAGES_DIR]) \<longrightarrow> installed = []"
    using inst by (auto simp: list_installed_packages_def Let_def)
  have b: "\<forall>pkg \<in> set installed.
           isdir fs (r @ [PACKAGES_DIR, pkg])
           \<and> (\<exists>names. listdir fs (r @ [PACKAGES_DIR]) = Inr names \<and> pkg \<in> set names)"
    using inst
    by (auto simp: list_installed_packages_def Let_def split: if_splits sum.splits)
  have c: "\<forall>pkg. isfile fs (r @ [PACKAGES_DIR, pkg]) \<longrightarrow> pkg \<notin> set installed"
    using b by (auto simp: isfile_def isdir_def split: option.splits node.splits)
  from inst a b c show ?thesis by blast
qed

theorem list_installed_packages_safe_witness:
  "list_installed_packages example_root example_fs = Inr [''radare2@5.8.8'']
   \<and> isdir example_fs (example_root @ [PACKAGES_DIR, ''radare2@5.8.8''])
   \<and> isfile example_fs (example_root @ [PACKAGES_DIR, ''notes.txt''])
   \<and> ''notes.txt'' \<notin> set [''radare2@5.8.8'']
   \<and> \<not> isdir example_fs ([''home'', ''other''] @ [PACKAGES_DIR])
   \<and> list_installed_packages [''home'', ''other''] example_fs = Inr []"
proof -
  have l: "list_installed_packages example_root example_fs = Inr [''radare2@5.8.8'']"
    by code_simp
  have f: "isfile example_fs (example_root @ [PACKAGES_DIR, ''notes.txt''])"
    by code_simp
  have n: "\<not> isdir example_fs ([''home'', ''other''] @ [PACKAGES_DIR])"
    by code_simp
  from list_installed_packages_safe [of example_root example_fs] l f
  have 1: "isdir example_fs (example_root @ [PACKAGES_DIR, ''radare2@5.8.8''])
    \<and> ''notes.txt'' \<notin> set [''radare2@5.8.8'']"
    by auto
  from list_installed_packages_safe [of "[''home'', ''other'']" example_fs] n
  have 2: "list_installed_packages [''home'', ''other''] example_fs = Inr []"
    by auto
  from l f n 1 2 show ?thesis by blast
qed

end
